theory Spec2Isabelle
  imports Complex_Main "HOL-Library.Sublist" "HOL-Library.Signed_Division"
begin

section \<open>Conventions of the embedding\<close>

text \<open>
  The trading core is written in Go. The embedding follows the source function by
  function and keeps its names; record fields carry a short prefix where two Go structs
  share a field name.

  \<^item> A Go \<open>float64\<close> is a value of an arbitrary type \<open>'f\<close>. Every operation the code
    performs on such values (arithmetic, comparison, \<open>math.Min\<close>, conversion, the value
    of a numeric literal) is a field of a record of operations that each function takes
    as its first argument \<open>F\<close>, applied in the order in which the source applies it.
    Nothing is assumed about these operations, so a statement proved for every \<open>F\<close>
    holds for IEEE 754 binary64 with its rounding, infinities, NaN and signed zeros.
  \<^item> A Go \<open>int\<close> is an \<open>int\<close>; \<open>len\<close> of a slice is \<open>int (length xs)\<close>. No count in this
    code comes near the 64-bit range. Go's integer division truncates towards zero and
    is written \<open>sdiv\<close>.
  \<^item> A Go map from symbols to slices is a partial map; reading a missing key gives the
    nil slice, which behaves as the empty list.
  \<^item> A run-time panic (a slice expression or \<open>make\<close> with a negative bound) is the
    value \<open>None\<close> of the function that would panic.
  \<^item> \<open>time.Now()\<close> is an argument of the function that reads the clock.
  \<^item> \<open>fmt.Sprintf\<close> texts are kept as their format strings; log output is dropped.
\<close>

subsection \<open>Floating-point operations\<close>

record 'f float_ops =
  fadd :: "'f \<Rightarrow> 'f \<Rightarrow> 'f"
  fsub :: "'f \<Rightarrow> 'f \<Rightarrow> 'f"
  fmul :: "'f \<Rightarrow> 'f \<Rightarrow> 'f"
  fdiv :: "'f \<Rightarrow> 'f \<Rightarrow> 'f"
  fneg :: "'f \<Rightarrow> 'f"
  fmin :: "'f \<Rightarrow> 'f \<Rightarrow> 'f"
  flt :: "'f \<Rightarrow> 'f \<Rightarrow> bool"
  fle :: "'f \<Rightarrow> 'f \<Rightarrow> bool"
  feq :: "'f \<Rightarrow> 'f \<Rightarrow> bool"
  lit :: "real \<Rightarrow> 'f"
  float_of_int :: "int \<Rightarrow> 'f"
  int_of_float :: "'f \<Rightarrow> int"

text \<open>
  \<open>fadd\<close> to \<open>fdiv\<close> are \<open>+\<close>, \<open>-\<close>, \<open>*\<close> and \<open>/\<close>; \<open>fneg\<close> is the unary minus; \<open>fmin\<close> is
  \<open>math.Min\<close>; \<open>flt\<close>, \<open>fle\<close> and \<open>feq\<close> are \<open><\<close>, \<open><=\<close> and \<open>==\<close>; \<open>lit x\<close> is the
  \<open>float64\<close> that the compiler puts for the numeric constant \<open>x\<close>; \<open>float_of_int\<close> and
  \<open>int_of_float\<close> are the conversions \<open>float64(i)\<close> and \<open>int(x)\<close>. Go's \<open>a > b\<close> is
  \<open>b < a\<close> and \<open>a >= b\<close> is \<open>b <= a\<close>, also on NaN.
\<close>

definition fgt :: "'f float_ops \<Rightarrow> 'f \<Rightarrow> 'f \<Rightarrow> bool" where
  "fgt F a b = flt F b a"

definition fge :: "'f float_ops \<Rightarrow> 'f \<Rightarrow> 'f \<Rightarrow> bool" where
  "fge F a b = fle F b a"

text \<open>
  The operations without rounding, on the real numbers. A \<open>float64\<close> computation agrees
  with them wherever every intermediate result is a finite \<open>float64\<close> computed without
  rounding error; the scenarios below are evaluated with them. The conversion \<open>int(x)\<close>
  discards the fractional part. The quotient \<open>x / 0\<close> is \<open>0\<close> here.
\<close>

definition go_int :: "real \<Rightarrow> int" where
  "go_int x = (if 0 \<le> x then \<lfloor>x\<rfloor> else \<lceil>x\<rceil>)"

definition exact :: "real float_ops" where
  "exact = \<lparr>fadd = (+), fsub = (-), fmul = (*), fdiv = (/), fneg = uminus, fmin = min,
     flt = (<), fle = (\<le>), feq = (=), lit = (\<lambda>x. x), float_of_int = real_of_int,
     int_of_float = go_int\<rparr>"

definition history_of :: "(string \<rightharpoonup> 'f list) \<Rightarrow> string \<Rightarrow> 'f list" where
  "history_of m symbol = (case m symbol of None \<Rightarrow> [] | Some xs \<Rightarrow> xs)"

section \<open>Signals, market data, positions\<close>

record 'f Signal =
  Action :: string
  Quantity :: 'f
  Price :: 'f
  StopLoss :: 'f
  TakeProfit :: 'f
  Confidence :: 'f
  Reason :: string
  PositionSide :: string

text \<open>The zero value of the struct: what a composite literal leaves unset.\<close>

definition Signal_zero :: "'f float_ops \<Rightarrow> 'f Signal" where
  "Signal_zero F = \<lparr>Action = [], Quantity = lit F 0, Price = lit F 0, StopLoss = lit F 0,
     TakeProfit = lit F 0, Confidence = lit F 0, Reason = [], PositionSide = []\<rparr>"

definition hold_signal :: "'f float_ops \<Rightarrow> string \<Rightarrow> 'f Signal" where
  "hold_signal F why = (Signal_zero F)\<lparr>Action := ''HOLD'', Reason := why\<rparr>"

record 'f MarketData =
  md_Symbol :: string
  md_Price :: 'f
  md_Volume :: 'f

record 'f Position =
  pos_ID :: nat
  pos_Symbol :: string
  pos_PositionSide :: string
  pos_Size :: 'f
  pos_EntryPrice :: 'f
  pos_Status :: string

section \<open>Simple moving average strategy\<close>

record 'f SMAStrategy =
  sma_name :: string
  shortPeriod :: int
  longPeriod :: int
  sma_minConfidence :: 'f
  sma_priceHistory :: "string \<rightharpoonup> 'f list"

definition NewSMAStrategy :: "'f float_ops \<Rightarrow> 'f SMAStrategy" where
  "NewSMAStrategy F = \<lparr>sma_name = ''Simple Moving Average'', shortPeriod = 10, longPeriod = 20,
     sma_minConfidence = lit F (7 / 10), sma_priceHistory = Map.empty\<rparr>"

text \<open>
  \<open>updatePriceHistory\<close> appends the price and keeps the last \<open>longPeriod + 10\<close> entries.
  The slice expression \<open>h[len(h)-maxLength:]\<close> panics when its lower bound exceeds
  \<open>len(h)\<close>, which is the case exactly when \<open>maxLength\<close> is negative.
\<close>

definition trim_history :: "'f list \<Rightarrow> int \<Rightarrow> 'f list option" where
  "trim_history h maxLength =
     (if int (length h) > maxLength
      then (if int (length h) - maxLength > int (length h) then None
            else Some (drop (nat (int (length h) - maxLength)) h))
      else Some h)"

definition SMA_updatePriceHistory :: "'f SMAStrategy \<Rightarrow> string \<Rightarrow> 'f \<Rightarrow> 'f SMAStrategy option" where
  "SMA_updatePriceHistory s symbol price =
     (let h = history_of (sma_priceHistory s) symbol @ [price];
          maxLength = longPeriod s + 10
      in case trim_history h maxLength of
           None \<Rightarrow> None
         | Some h' \<Rightarrow> Some (s\<lparr>sma_priceHistory := (sma_priceHistory s)(symbol \<mapsto> h')\<rparr>))"

text \<open>
  \<open>calculateSMA\<close>: the loop adds the last \<open>period\<close> prices to \<open>0.0\<close>, from the oldest to
  the newest, and the sum is divided by \<open>float64(period)\<close>.
\<close>

definition calculateSMA :: "'f float_ops \<Rightarrow> 'f list \<Rightarrow> int \<Rightarrow> 'f" where
  "calculateSMA F prices n =
     (if int (length prices) < n then lit F 0
      else fdiv F
             (foldl (\<lambda>sum i. fadd F sum (prices ! i)) (lit F 0)
                [nat (int (length prices) - n) ..< length prices])
             (float_of_int F n))"

definition calculateQuantity :: "'f float_ops \<Rightarrow> 'f \<Rightarrow> 'f \<Rightarrow> 'f" where
  "calculateQuantity F price positionValue = fdiv F positionValue price"

definition SMA_ShouldBuy ::
  "'f float_ops \<Rightarrow> 'f SMAStrategy \<Rightarrow> string \<Rightarrow> 'f MarketData \<Rightarrow> ('f Signal \<times> 'f SMAStrategy) option" where
  "SMA_ShouldBuy F s0 symbol data =
     (case SMA_updatePriceHistory s0 symbol (md_Price data) of
        None \<Rightarrow> None
      | Some s \<Rightarrow>
          (let prices = history_of (sma_priceHistory s) symbol in
           if int (length prices) < longPeriod s then Some (hold_signal F ''Insufficient data'', s)
           else
             (let shortSMA = calculateSMA F prices (shortPeriod s);
                  longSMA = calculateSMA F prices (longPeriod s);
                  crossoverStrength = fdiv F (fsub F shortSMA longSMA) longSMA;
                  confidence = fmin F (fmul F crossoverStrength (lit F 10)) (lit F 1)
              in if fgt F shortSMA longSMA \<and> fge F confidence (sma_minConfidence s)
                 then Some ((Signal_zero F)\<lparr>Action := ''BUY'',
                              Quantity := calculateQuantity F (md_Price data) (lit F 1000),
                              Price := md_Price data,
                              Confidence := confidence,
                              Reason := ''SMA crossover: short=%.2f, long=%.2f'',
                              PositionSide := ''LONG''\<rparr>, s)
                 else Some (hold_signal F ''No buy signal'', s))))"

text \<open>The sell signal that every variant builds: the size of the position at the current price.\<close>

definition exit_signal ::
  "'f float_ops \<Rightarrow> 'f MarketData \<Rightarrow> 'f Position \<Rightarrow> 'f \<Rightarrow> string \<Rightarrow> 'f Signal" where
  "exit_signal F data position confidence why =
     (Signal_zero F)\<lparr>Action := ''SELL'', Quantity := pos_Size position, Price := md_Price data,
       Confidence := confidence, Reason := why\<rparr>"

definition pnlPercent :: "'f float_ops \<Rightarrow> 'f MarketData \<Rightarrow> 'f Position \<Rightarrow> 'f" where
  "pnlPercent F data position =
     fmul F (fdiv F (fsub F (md_Price data) (pos_EntryPrice position)) (pos_EntryPrice position))
       (lit F 100)"

definition SMA_ShouldSell ::
  "'f float_ops \<Rightarrow> 'f SMAStrategy \<Rightarrow> string \<Rightarrow> 'f MarketData \<Rightarrow> 'f Position
     \<Rightarrow> ('f Signal \<times> 'f SMAStrategy) option" where
  "SMA_ShouldSell F s0 symbol data position =
     (case SMA_updatePriceHistory s0 symbol (md_Price data) of
        None \<Rightarrow> None
      | Some s \<Rightarrow>
          (let prices = history_of (sma_priceHistory s) symbol in
           if int (length prices) < longPeriod s then Some (hold_signal F ''Insufficient data'', s)
           else
             (let shortSMA = calculateSMA F prices (shortPeriod s);
                  longSMA = calculateSMA F prices (longPeriod s);
                  crossoverStrength = fdiv F (fsub F longSMA shortSMA) longSMA;
                  confidence = fmin F (fmul F crossoverStrength (lit F 10)) (lit F 1)
              in if flt F shortSMA longSMA \<and> fge F confidence (sma_minConfidence s)
                 then Some (exit_signal F data position confidence
                              ''SMA crossover: short=%.2f, long=%.2f'', s)
                 else if fle F (pnlPercent F data position) (lit F (- 2))
                 then Some (exit_signal F data position (lit F 1) ''Stop loss triggered: %.2f%%'', s)
                 else if fge F (pnlPercent F data position) (lit F 5)
                 then Some (exit_signal F data position (lit F 1) ''Take profit triggered: %.2f%%'', s)
                 else Some (hold_signal F ''No sell signal'', s))))"

section \<open>RSI strategy\<close>

record 'f RSIStrategy =
  rsi_name :: string
  period :: int
  oversold :: 'f
  overbought :: 'f
  rsi_minConfidence :: 'f
  rsi_priceHistory :: "string \<rightharpoonup> 'f list"

definition NewRSIStrategy :: "'f float_ops \<Rightarrow> 'f RSIStrategy" where
  "NewRSIStrategy F = \<lparr>rsi_name = ''RSI Strategy'', period = 14, oversold = lit F 30,
     overbought = lit F 70, rsi_minConfidence = lit F (6 / 10), rsi_priceHistory = Map.empty\<rparr>"

definition RSI_updatePriceHistory :: "'f RSIStrategy \<Rightarrow> string \<Rightarrow> 'f \<Rightarrow> 'f RSIStrategy option" where
  "RSI_updatePriceHistory r symbol price =
     (let h = history_of (rsi_priceHistory r) symbol @ [price];
          maxLength = period r + 20
      in case trim_history h maxLength of
           None \<Rightarrow> None
         | Some h' \<Rightarrow> Some (r\<lparr>rsi_priceHistory := (rsi_priceHistory r)(symbol \<mapsto> h')\<rparr>))"

text \<open>
  The first loop of \<open>calculateRSI\<close>: one gain and one loss per consecutive pair of
  prices, in order.
\<close>

fun price_changes :: "'f float_ops \<Rightarrow> 'f list \<Rightarrow> ('f \<times> 'f) list" where
  "price_changes F (p # q # ps) =
     (let change = fsub F q p
      in (if fgt F change (lit F 0) then (change, lit F 0) else (lit F 0, fneg F change))
         # price_changes F (q # ps))"
| "price_changes F ps = []"

definition gains_of :: "'f float_ops \<Rightarrow> 'f list \<Rightarrow> 'f list" where
  "gains_of F prices = map fst (price_changes F prices)"

definition losses_of :: "'f float_ops \<Rightarrow> 'f list \<Rightarrow> 'f list" where
  "losses_of F prices = map snd (price_changes F prices)"

text \<open>
  The second loop: the last \<open>n\<close> entries, read by index, are added to \<open>0.0\<close> in order, and
  the sum is divided by \<open>float64(n)\<close>. It is only reached with \<open>n \<le> len(xs)\<close>, so every
  index is in range; with \<open>n \<le> 0\<close> the loop body does not run.
\<close>

definition recent_average :: "'f float_ops \<Rightarrow> 'f list \<Rightarrow> int \<Rightarrow> 'f" where
  "recent_average F xs n =
     fdiv F
       (foldl (\<lambda>acc i. fadd F acc (xs ! nat (int (length xs) - n + int i))) (lit F 0) [0 ..< nat n])
       (float_of_int F n)"

definition avgGain :: "'f float_ops \<Rightarrow> 'f RSIStrategy \<Rightarrow> 'f list \<Rightarrow> 'f" where
  "avgGain F r prices = recent_average F (gains_of F prices) (period r)"

definition avgLoss :: "'f float_ops \<Rightarrow> 'f RSIStrategy \<Rightarrow> 'f list \<Rightarrow> 'f" where
  "avgLoss F r prices = recent_average F (losses_of F prices) (period r)"

definition calculateRSI :: "'f float_ops \<Rightarrow> 'f RSIStrategy \<Rightarrow> 'f list \<Rightarrow> 'f" where
  "calculateRSI F r prices =
     (if int (length prices) < period r + 1 then lit F 50
      else if int (length (gains_of F prices)) < period r then lit F 50
      else if feq F (avgLoss F r prices) (lit F 0) then lit F 100
      else (let rs = fdiv F (avgGain F r prices) (avgLoss F r prices)
            in fsub F (lit F 100) (fdiv F (lit F 100) (fadd F (lit F 1) rs))))"

definition RSI_ShouldBuy ::
  "'f float_ops \<Rightarrow> 'f RSIStrategy \<Rightarrow> string \<Rightarrow> 'f MarketData \<Rightarrow> ('f Signal \<times> 'f RSIStrategy) option" where
  "RSI_ShouldBuy F r0 symbol data =
     (case RSI_updatePriceHistory r0 symbol (md_Price data) of
        None \<Rightarrow> None
      | Some r \<Rightarrow>
          (let prices = history_of (rsi_priceHistory r) symbol in
           if int (length prices) < period r + 1
           then Some (hold_signal F ''Insufficient data for RSI'', r)
           else
             (let rsi = calculateRSI F r prices;
                  confidence = fdiv F (fsub F (oversold r) rsi) (oversold r)
              in if flt F rsi (oversold r) \<and> fge F confidence (rsi_minConfidence r)
                 then Some ((Signal_zero F)\<lparr>Action := ''BUY'',
                              Quantity := calculateQuantity F (md_Price data) (lit F 1000),
                              Price := md_Price data,
                              Confidence := confidence,
                              Reason := ''RSI oversold: %.2f'',
                              PositionSide := ''LONG''\<rparr>, r)
                 else Some (hold_signal F ''RSI: %.2f'', r))))"

definition RSI_ShouldSell ::
  "'f float_ops \<Rightarrow> 'f RSIStrategy \<Rightarrow> string \<Rightarrow> 'f MarketData \<Rightarrow> 'f Position
     \<Rightarrow> ('f Signal \<times> 'f RSIStrategy) option" where
  "RSI_ShouldSell F r0 symbol data position =
     (case RSI_updatePriceHistory r0 symbol (md_Price data) of
        None \<Rightarrow> None
      | Some r \<Rightarrow>
          (let prices = history_of (rsi_priceHistory r) symbol in
           if int (length prices) < period r + 1
           then Some (hold_signal F ''Insufficient data for RSI'', r)
           else
             (let rsi = calculateRSI F r prices;
                  confidence = fdiv F (fsub F rsi (overbought r)) (fsub F (lit F 100) (overbought r))
              in if fgt F rsi (overbought r) \<and> fge F confidence (rsi_minConfidence r)
                 then Some (exit_signal F data position confidence ''RSI overbought: %.2f'', r)
                 else if fle F (pnlPercent F data position) (lit F (- 2))
                 then Some (exit_signal F data position (lit F 1) ''Stop loss: %.2f%%'', r)
                 else if fge F (pnlPercent F data position) (lit F 5)
                 then Some (exit_signal F data position (lit F 1) ''Take profit: %.2f%%'', r)
                 else Some (hold_signal F ''RSI: %.2f'', r))))"

section \<open>Grid strategy\<close>

record 'f GridPosition =
  gp_Price :: 'f
  gp_Quantity :: 'f
  gp_Active :: bool

record 'f GridStrategy =
  grid_name :: string
  gridSize :: 'f
  numGrids :: int
  basePrice :: 'f
  positions :: "string \<rightharpoonup> 'f GridPosition list"
  grid_minConfidence :: 'f

definition NewGridStrategy :: "'f float_ops \<Rightarrow> 'f GridStrategy" where
  "NewGridStrategy F = \<lparr>grid_name = ''Grid Strategy'', gridSize = lit F (1 / 100), numGrids = 10,
     basePrice = lit F 0, positions = Map.empty, grid_minConfidence = lit F (8 / 10)\<rparr>"

definition levels_of :: "'f GridStrategy \<Rightarrow> string \<Rightarrow> 'f GridPosition list" where
  "levels_of g symbol = (case positions g symbol of None \<Rightarrow> [] | Some ls \<Rightarrow> ls)"

text \<open>\<open>make([]GridPosition, n)\<close> panics for a negative \<open>n\<close>.\<close>

definition initializeGrid :: "'f float_ops \<Rightarrow> 'f GridStrategy \<Rightarrow> string \<Rightarrow> 'f \<Rightarrow> 'f GridStrategy option" where
  "initializeGrid F g symbol base =
     (if numGrids g < 0 then None
      else Some (g\<lparr>positions := (positions g)(symbol \<mapsto>
             map (\<lambda>i. let offset = fmul F (float_of_int F (int i - numGrids g sdiv 2)) (gridSize g);
                          price = fmul F base (fadd F (lit F 1) offset)
                      in \<lparr>gp_Price = price, gp_Quantity = lit F 0, gp_Active = False\<rparr>)
                 [0 ..< nat (numGrids g)])\<rparr>))"

definition findGridLevel :: "'f float_ops \<Rightarrow> 'f GridStrategy \<Rightarrow> 'f \<Rightarrow> int" where
  "findGridLevel F g price =
     (if feq F (basePrice g) (lit F 0) then - 1
      else (let offset = fdiv F (fdiv F (fsub F price (basePrice g)) (basePrice g)) (gridSize g)
            in int_of_float F offset + numGrids g sdiv 2))"

definition calculateGridQuantity :: "'f float_ops \<Rightarrow> 'f \<Rightarrow> 'f" where
  "calculateGridQuantity F price = fdiv F (lit F 100) price"

definition Grid_ShouldBuy ::
  "'f float_ops \<Rightarrow> 'f GridStrategy \<Rightarrow> string \<Rightarrow> 'f MarketData \<Rightarrow> ('f Signal \<times> 'f GridStrategy) option" where
  "Grid_ShouldBuy F g0 symbol data =
     (case (if feq F (basePrice g0) (lit F 0)
            then initializeGrid F (g0\<lparr>basePrice := md_Price data\<rparr>) symbol (md_Price data)
            else Some g0) of
        None \<Rightarrow> None
      | Some g \<Rightarrow>
          (let gridLevel = findGridLevel F g (md_Price data);
               levels = levels_of g symbol
           in if gridLevel < 0 \<or> gridLevel \<ge> int (length levels)
              then Some (hold_signal F ''Price outside grid range'', g)
              else if fle F (md_Price data) (gp_Price (levels ! nat gridLevel))
                      \<and> \<not> gp_Active (levels ! nat gridLevel)
              then Some ((Signal_zero F)\<lparr>Action := ''BUY'',
                           Quantity := calculateGridQuantity F (md_Price data),
                           Price := md_Price data,
                           Confidence := grid_minConfidence g,
                           Reason := ''Grid buy at level %d'',
                           PositionSide := ''LONG''\<rparr>, g)
              else Some (hold_signal F ''No grid buy signal'', g)))"

definition Grid_ShouldSell ::
  "'f float_ops \<Rightarrow> 'f GridStrategy \<Rightarrow> string \<Rightarrow> 'f MarketData \<Rightarrow> 'f Position \<Rightarrow> 'f Signal" where
  "Grid_ShouldSell F g symbol data position =
     (if feq F (basePrice g) (lit F 0) then hold_signal F ''Grid not initialized''
      else
        (let profitTarget = fmul F (pos_EntryPrice position) (fadd F (lit F 1) (gridSize g));
             stopLoss = fmul F (pos_EntryPrice position)
                          (fsub F (lit F 1) (fmul F (gridSize g) (lit F 2)))
         in if fge F (md_Price data) profitTarget
            then exit_signal F data position (grid_minConfidence g) ''Grid sell target reached: %.2f''
            else if fle F (md_Price data) stopLoss
            then exit_signal F data position (lit F 1) ''Grid stop loss: %.2f''
            else hold_signal F ''No grid sell signal''))"

section \<open>AI strategy\<close>

record AIStrategy =
  ai_name :: string

definition NewAIStrategy :: AIStrategy where
  "NewAIStrategy = \<lparr>ai_name = ''AIStrategy''\<rparr>"

definition AI_ShouldBuy :: "'f float_ops \<Rightarrow> AIStrategy \<Rightarrow> string \<Rightarrow> 'f MarketData \<Rightarrow> 'f Signal" where
  "AI_ShouldBuy F a symbol data = (Signal_zero F)\<lparr>Action := ''BUY''\<rparr>"

definition AI_ShouldSell ::
  "'f float_ops \<Rightarrow> AIStrategy \<Rightarrow> string \<Rightarrow> 'f MarketData \<Rightarrow> 'f Position \<Rightarrow> 'f Signal" where
  "AI_ShouldSell F a symbol data position = (Signal_zero F)\<lparr>Action := ''SELL''\<rparr>"

section \<open>Strategy parameters\<close>

text \<open>
  \<open>Initialize\<close> receives a \<open>map[string]interface{}\<close>. A parameter is applied only
  when its value is a \<open>float64\<close>; the type assertion fails silently on anything else.
\<close>

datatype 'f param = PFloat 'f | PInt int | PString string | PBool bool

type_synonym 'f params = "string \<rightharpoonup> 'f param"

definition float_param :: "'f params \<Rightarrow> string \<Rightarrow> 'f option" where
  "float_param config key = (case config key of Some (PFloat x) \<Rightarrow> Some x | _ \<Rightarrow> None)"

text \<open>
  Each \<open>Initialize\<close> mutates its receiver and then returns an optional error; the
  mutation stays when the error is returned.
\<close>

definition SMA_Initialize ::
  "'f float_ops \<Rightarrow> 'f SMAStrategy \<Rightarrow> 'f params \<Rightarrow> string option \<times> 'f SMAStrategy" where
  "SMA_Initialize F s0 config =
     (let s1 = (case float_param config ''short_period'' of
                  Some x \<Rightarrow> s0\<lparr>shortPeriod := int_of_float F x\<rparr> | None \<Rightarrow> s0);
          s2 = (case float_param config ''long_period'' of
                  Some x \<Rightarrow> s1\<lparr>longPeriod := int_of_float F x\<rparr> | None \<Rightarrow> s1);
          s3 = (case float_param config ''min_confidence'' of
                  Some x \<Rightarrow> s2\<lparr>sma_minConfidence := x\<rparr> | None \<Rightarrow> s2)
      in if shortPeriod s3 \<ge> longPeriod s3
         then (Some ''short period must be less than long period'', s3)
         else (None, s3))"

definition RSI_Initialize ::
  "'f float_ops \<Rightarrow> 'f RSIStrategy \<Rightarrow> 'f params \<Rightarrow> string option \<times> 'f RSIStrategy" where
  "RSI_Initialize F r0 config =
     (let r1 = (case float_param config ''period'' of
                  Some x \<Rightarrow> r0\<lparr>period := int_of_float F x\<rparr> | None \<Rightarrow> r0);
          r2 = (case float_param config ''oversold'' of
                  Some x \<Rightarrow> r1\<lparr>oversold := x\<rparr> | None \<Rightarrow> r1);
          r3 = (case float_param config ''overbought'' of
                  Some x \<Rightarrow> r2\<lparr>overbought := x\<rparr> | None \<Rightarrow> r2);
          r4 = (case float_param config ''min_confidence'' of
                  Some x \<Rightarrow> r3\<lparr>rsi_minConfidence := x\<rparr> | None \<Rightarrow> r3)
      in (None, r4))"

definition Grid_Initialize ::
  "'f float_ops \<Rightarrow> 'f GridStrategy \<Rightarrow> 'f params \<Rightarrow> string option \<times> 'f GridStrategy" where
  "Grid_Initialize F g0 config =
     (let g1 = (case float_param config ''grid_size'' of
                  Some x \<Rightarrow> g0\<lparr>gridSize := x\<rparr> | None \<Rightarrow> g0);
          g2 = (case float_param config ''num_grids'' of
                  Some x \<Rightarrow> g1\<lparr>numGrids := int_of_float F x\<rparr> | None \<Rightarrow> g1);
          g3 = (case float_param config ''min_confidence'' of
                  Some x \<Rightarrow> g2\<lparr>grid_minConfidence := x\<rparr> | None \<Rightarrow> g2)
      in (None, g3))"

definition AI_Initialize :: "AIStrategy \<Rightarrow> 'f params \<Rightarrow> string option \<times> AIStrategy" where
  "AI_Initialize a config = (None, a)"

section \<open>The strategy interface\<close>

text \<open>
  The Go interface \<open>Strategy\<close> has four implementations; a value of the interface is a
  value of one of them. A method call dispatches on the constructor.
\<close>

datatype 'f Strategy =
  SMA "'f SMAStrategy" | RSI "'f RSIStrategy" | Grid "'f GridStrategy" | AI AIStrategy

fun Name :: "'f Strategy \<Rightarrow> string" where
  "Name (SMA s) = sma_name s"
| "Name (RSI r) = rsi_name r"
| "Name (Grid g) = grid_name g"
| "Name (AI a) = ai_name a"

fun Initialize :: "'f float_ops \<Rightarrow> 'f Strategy \<Rightarrow> 'f params \<Rightarrow> string option \<times> 'f Strategy" where
  "Initialize F (SMA s) config = map_prod id SMA (SMA_Initialize F s config)"
| "Initialize F (RSI r) config = map_prod id RSI (RSI_Initialize F r config)"
| "Initialize F (Grid g) config = map_prod id Grid (Grid_Initialize F g config)"
| "Initialize F (AI a) config = map_prod id AI (AI_Initialize a config)"

fun ShouldBuy ::
  "'f float_ops \<Rightarrow> 'f Strategy \<Rightarrow> string \<Rightarrow> 'f MarketData \<Rightarrow> ('f Signal \<times> 'f Strategy) option" where
  "ShouldBuy F (SMA s) symbol data = map_option (map_prod id SMA) (SMA_ShouldBuy F s symbol data)"
| "ShouldBuy F (RSI r) symbol data = map_option (map_prod id RSI) (RSI_ShouldBuy F r symbol data)"
| "ShouldBuy F (Grid g) symbol data = map_option (map_prod id Grid) (Grid_ShouldBuy F g symbol data)"
| "ShouldBuy F (AI a) symbol data = Some (AI_ShouldBuy F a symbol data, AI a)"

fun ShouldSell ::
  "'f float_ops \<Rightarrow> 'f Strategy \<Rightarrow> string \<Rightarrow> 'f MarketData \<Rightarrow> 'f Position
     \<Rightarrow> ('f Signal \<times> 'f Strategy) option" where
  "ShouldSell F (SMA s) symbol data position =
     map_option (map_prod id SMA) (SMA_ShouldSell F s symbol data position)"
| "ShouldSell F (RSI r) symbol data position =
     map_option (map_prod id RSI) (RSI_ShouldSell F r symbol data position)"
| "ShouldSell F (Grid g) symbol data position =
     Some (Grid_ShouldSell F g symbol data position, Grid g)"
| "ShouldSell F (AI a) symbol data position = Some (AI_ShouldSell F a symbol data position, AI a)"

text \<open>
  The minimum confidence a variant is configured with. The AI variant has no such
  field.
\<close>

fun minConfidence :: "'f Strategy \<Rightarrow> 'f option" where
  "minConfidence (SMA s) = Some (sma_minConfidence s)"
| "minConfidence (RSI r) = Some (rsi_minConfidence r)"
| "minConfidence (Grid g) = Some (grid_minConfidence g)"
| "minConfidence (AI a) = None"

section \<open>Risk manager\<close>

text \<open>
  A \<open>time.Time\<close> as the risk manager reads it: the calendar date through \<open>Year()\<close>,
  \<open>Month()\<close> and \<open>Day()\<close>, and the time elapsed within that day.
\<close>

record Time =
  Year :: int
  Month :: nat
  Day :: nat
  clock :: nat

record 'f RiskConfig =
  MaxPositionSize :: 'f
  StopLossPercent :: 'f
  TakeProfitPercent :: 'f
  MaxDailyLoss :: 'f
  MaxLeverage :: int
  RiskPerTrade :: 'f
  MaxDrawdown :: 'f
  MaxOpenPositions :: int
  MinOrderValue :: 'f
  MaxOrderValue :: 'f
  VaRLimit :: 'f
  CorrelationLimit :: 'f

record 'f RiskManager =
  config :: "'f RiskConfig"
  dailyLoss :: 'f
  dailyTrades :: int
  lastResetDate :: Time
  totalExposure :: 'f
  maxExposure :: 'f

record 'f OrderInfo =
  oi_Symbol :: string
  oi_Side :: string
  oi_Quantity :: 'f
  oi_Price :: 'f

definition NewRiskManager :: "'f float_ops \<Rightarrow> Time \<Rightarrow> 'f RiskConfig \<Rightarrow> 'f RiskManager" where
  "NewRiskManager F now cfg = \<lparr>config = cfg, dailyLoss = lit F 0, dailyTrades = 0,
     lastResetDate = now, totalExposure = lit F 0,
     maxExposure = fmul F (MaxPositionSize cfg) (lit F 10)\<rparr>"

definition resetDailyCountersIfNeeded :: "'f float_ops \<Rightarrow> Time \<Rightarrow> 'f RiskManager \<Rightarrow> 'f RiskManager" where
  "resetDailyCountersIfNeeded F now rm =
     (if Day now \<noteq> Day (lastResetDate rm) \<or> Month now \<noteq> Month (lastResetDate rm)
         \<or> Year now \<noteq> Year (lastResetDate rm)
      then rm\<lparr>dailyLoss := lit F 0, dailyTrades := 0, lastResetDate := now\<rparr>
      else rm)"

definition isTradingAllowed :: "'f float_ops \<Rightarrow> 'f RiskManager \<Rightarrow> bool" where
  "isTradingAllowed F rm =
     (if MaxOpenPositions (config rm) > 0 \<and> dailyTrades rm \<ge> MaxOpenPositions (config rm) then False
      else if fge F (dailyLoss rm) (MaxDailyLoss (config rm)) then False
      else True)"

text \<open>The local \<open>orderValue := order.Quantity * order.Price\<close> of four of the checks.\<close>

definition orderValue :: "'f float_ops \<Rightarrow> 'f OrderInfo \<Rightarrow> 'f" where
  "orderValue F order = fmul F (oi_Quantity order) (oi_Price order)"

definition validateOrderSize :: "'f float_ops \<Rightarrow> 'f RiskManager \<Rightarrow> 'f OrderInfo \<Rightarrow> bool" where
  "validateOrderSize F rm order =
     (if flt F (orderValue F order) (MinOrderValue (config rm)) then False
      else if fgt F (MaxOrderValue (config rm)) (lit F 0)
                \<and> fgt F (orderValue F order) (MaxOrderValue (config rm)) then False
      else True)"

definition validatePositionSize :: "'f float_ops \<Rightarrow> 'f RiskManager \<Rightarrow> 'f OrderInfo \<Rightarrow> bool" where
  "validatePositionSize F rm order =
     (if fgt F (orderValue F order) (MaxPositionSize (config rm)) then False else True)"

definition validateDailyLossLimit :: "'f float_ops \<Rightarrow> 'f RiskManager \<Rightarrow> 'f OrderInfo \<Rightarrow> bool" where
  "validateDailyLossLimit F rm order =
     (if fge F (dailyLoss rm) (MaxDailyLoss (config rm)) then False else True)"

definition validateExposureLimit :: "'f float_ops \<Rightarrow> 'f RiskManager \<Rightarrow> 'f OrderInfo \<Rightarrow> bool" where
  "validateExposureLimit F rm order =
     (let newExposure = fadd F (totalExposure rm) (orderValue F order)
      in if fgt F newExposure (maxExposure rm) then False else True)"

definition validateRiskPerTrade :: "'f float_ops \<Rightarrow> 'f RiskManager \<Rightarrow> 'f OrderInfo \<Rightarrow> bool" where
  "validateRiskPerTrade F rm order =
     (let riskAmount = fmul F (orderValue F order) (fdiv F (RiskPerTrade (config rm)) (lit F 100));
          maxRiskPerTrade = fmul F (MaxPositionSize (config rm))
                              (fdiv F (RiskPerTrade (config rm)) (lit F 100))
      in if fgt F riskAmount maxRiskPerTrade then False else True)"

text \<open>
  \<open>ValidateOrder\<close> returns its verdict together with the risk manager as the daily
  reset at its start leaves it.
\<close>

definition ValidateOrder ::
  "'f float_ops \<Rightarrow> Time \<Rightarrow> 'f RiskManager \<Rightarrow> 'f OrderInfo \<Rightarrow> bool \<times> 'f RiskManager" where
  "ValidateOrder F now rm0 order =
     (let rm = resetDailyCountersIfNeeded F now rm0
      in if \<not> isTradingAllowed F rm then (False, rm)
         else if \<not> validateOrderSize F rm order then (False, rm)
         else if \<not> validatePositionSize F rm order then (False, rm)
         else if \<not> validateDailyLossLimit F rm order then (False, rm)
         else if \<not> validateExposureLimit F rm order then (False, rm)
         else if \<not> validateRiskPerTrade F rm order then (False, rm)
         else (True, rm))"

definition UpdateDailyLoss :: "'f float_ops \<Rightarrow> Time \<Rightarrow> 'f RiskManager \<Rightarrow> 'f \<Rightarrow> 'f RiskManager" where
  "UpdateDailyLoss F now rm0 loss =
     (let rm = resetDailyCountersIfNeeded F now rm0 in rm\<lparr>dailyLoss := fadd F (dailyLoss rm) loss\<rparr>)"

definition UpdateDailyTrades :: "'f float_ops \<Rightarrow> Time \<Rightarrow> 'f RiskManager \<Rightarrow> 'f RiskManager" where
  "UpdateDailyTrades F now rm0 =
     (let rm = resetDailyCountersIfNeeded F now rm0 in rm\<lparr>dailyTrades := dailyTrades rm + 1\<rparr>)"

definition UpdateExposure :: "'f RiskManager \<Rightarrow> 'f \<Rightarrow> 'f RiskManager" where
  "UpdateExposure rm exposure = rm\<lparr>totalExposure := exposure\<rparr>"

text \<open>
  \<open>EmergencyStop\<close> writes the daily loss and nothing else; unlike the methods above it
  does not start with the daily reset.
\<close>

definition EmergencyStop :: "'f RiskManager \<Rightarrow> string \<Rightarrow> 'f RiskManager" where
  "EmergencyStop rm reason = rm\<lparr>dailyLoss := MaxDailyLoss (config rm)\<rparr>"

text \<open>
  The methods of the risk manager that write its state, as one call each.
  \<open>GetRiskMetrics\<close> writes through the daily reset it starts with; the remaining
  methods (\<open>CalculatePositionSize\<close>, \<open>CalculateStopLoss\<close>, \<open>CalculateTakeProfit\<close>,
  \<open>ValidatePortfolio\<close>, \<open>ShouldClosePosition\<close>) only read. A history of the risk
  manager is a list of calls, each with the clock reading it saw.
\<close>

datatype 'f rm_call =
    CallValidateOrder "'f OrderInfo"
  | CallUpdateDailyLoss 'f
  | CallUpdateDailyTrades
  | CallUpdateExposure 'f
  | CallGetRiskMetrics
  | CallEmergencyStop string

fun rm_step :: "'f float_ops \<Rightarrow> 'f RiskManager \<Rightarrow> Time \<times> 'f rm_call \<Rightarrow> 'f RiskManager" where
  "rm_step F rm (now, CallValidateOrder order) = snd (ValidateOrder F now rm order)"
| "rm_step F rm (now, CallUpdateDailyLoss loss) = UpdateDailyLoss F now rm loss"
| "rm_step F rm (now, CallUpdateDailyTrades) = UpdateDailyTrades F now rm"
| "rm_step F rm (now, CallUpdateExposure exposure) = UpdateExposure rm exposure"
| "rm_step F rm (now, CallGetRiskMetrics) = resetDailyCountersIfNeeded F now rm"
| "rm_step F rm (now, CallEmergencyStop reason) = EmergencyStop rm reason"

definition rm_run ::
  "'f float_ops \<Rightarrow> 'f RiskManager \<Rightarrow> (Time \<times> 'f rm_call) list \<Rightarrow> 'f RiskManager" where
  "rm_run F rm calls = foldl (rm_step F) rm calls"

definition same_date :: "Time \<Rightarrow> Time \<Rightarrow> bool" where
  "same_date a b = (Day a = Day b \<and> Month a = Month b \<and> Year a = Year b)"

section \<open>Engine\<close>

record 'f StrategyConfig =
  sc_Type :: string
  sc_Parameters :: "'f params"
  sc_EnableSignalFilters :: bool

record 'f TradingConfig =
  cfg_Symbols :: "string list"
  cfg_MaxPositionSize :: 'f
  cfg_StopLossPercent :: 'f
  cfg_TakeProfitPercent :: 'f
  cfg_MaxDailyLoss :: 'f
  cfg_TradingInterval :: int
  cfg_MinOrderValue :: 'f
  cfg_MaxLeverage :: int
  cfg_RiskPerTrade :: 'f
  cfg_EnablePaperTrading :: bool
  cfg_Strategy :: "'f StrategyConfig"

record 'f KlineData =
  kl_Close :: 'f
  kl_Volume :: 'f
  kl_CloseTime :: int

record 'f Engine =
  e_config :: "'f TradingConfig"
  isRunning :: bool
  strategy :: "'f Strategy"
  riskManager :: "'f RiskManager"
  marketData :: "string \<rightharpoonup> 'f KlineData"
  dailyPnL :: 'f
  totalTrades :: int
  winningTrades :: int
  losingTrades :: int

text \<open>The \<open>switch\<close> of \<open>NewEngine\<close> on the configured strategy type.\<close>

definition strategy_for_type :: "'f float_ops \<Rightarrow> string \<Rightarrow> 'f Strategy" where
  "strategy_for_type F t =
     (if t = ''simple_moving_average'' then SMA (NewSMAStrategy F)
      else if t = ''rsi'' then RSI (NewRSIStrategy F)
      else if t = ''ai'' then AI NewAIStrategy
      else SMA (NewSMAStrategy F))"

text \<open>
  \<open>NewEngine\<close> logs an error of \<open>Initialize\<close> and keeps the strategy as \<open>Initialize\<close>
  left it. The risk configuration receives six of its fields; the others keep their
  zero value.
\<close>

definition NewEngine :: "'f float_ops \<Rightarrow> Time \<Rightarrow> 'f TradingConfig \<Rightarrow> 'f Engine" where
  "NewEngine F now cfg =
     (let strategy0 = strategy_for_type F (sc_Type (cfg_Strategy cfg));
          strategy1 = snd (Initialize F strategy0 (sc_Parameters (cfg_Strategy cfg)));
          rm = NewRiskManager F now
                 \<lparr>MaxPositionSize = cfg_MaxPositionSize cfg,
                  StopLossPercent = cfg_StopLossPercent cfg,
                  TakeProfitPercent = cfg_TakeProfitPercent cfg,
                  MaxDailyLoss = cfg_MaxDailyLoss cfg,
                  MaxLeverage = cfg_MaxLeverage cfg,
                  RiskPerTrade = cfg_RiskPerTrade cfg,
                  MaxDrawdown = lit F 0, MaxOpenPositions = 0, MinOrderValue = lit F 0,
                  MaxOrderValue = lit F 0, VaRLimit = lit F 0, CorrelationLimit = lit F 0\<rparr>
      in \<lparr>e_config = cfg, isRunning = False, strategy = strategy1, riskManager = rm,
          marketData = Map.empty, dailyPnL = lit F 0, totalTrades = 0, winningTrades = 0,
          losingTrades = 0\<rparr>)"

subsection \<open>Collaborators\<close>

text \<open>
  The venue client and the repository are outside the core. Their state is a value of
  an arbitrary type \<open>'w\<close>; the record below holds the calls the decision task makes.
  A lookup of a position ends in the position, in \<open>gorm.ErrRecordNotFound\<close> or in
  another error; placing an order ends in an error or a response. The writes of the
  repository return errors that the engine only logs, so they return the new state.
\<close>

datatype db_error = ErrRecordNotFound | ErrOther

record 'f OrderRequest =
  or_Symbol :: string
  or_Side :: string
  or_Type :: string
  or_Quantity :: 'f
  or_PositionSide :: string
  or_ClosePosition :: bool
  or_NewClientOrderID :: string

record 'f OrderResponse =
  resp_OrderID :: int
  resp_Status :: string
  resp_AvgPrice :: 'f
  resp_ExecutedQty :: 'f

record ('f, 'w) Collaborators =
  GetPosition :: "'w \<Rightarrow> string \<Rightarrow> string \<Rightarrow> db_error + 'f Position"
  PlaceOrder :: "'w \<Rightarrow> 'f OrderRequest \<Rightarrow> (string + 'f OrderResponse) \<times> 'w"
  CreateOrder :: "'w \<Rightarrow> 'f OrderResponse \<Rightarrow> string \<Rightarrow> string \<Rightarrow> 'w"
  CreatePosition :: "'w \<Rightarrow> 'f Position \<Rightarrow> 'w"
  ClosePosition :: "'w \<Rightarrow> nat \<Rightarrow> 'f \<Rightarrow> 'f \<Rightarrow> 'w"

text \<open>
  What an observer of the decision task sees: each verdict of the risk manager and each
  order handed to the venue client, in the order of the calls.
\<close>

datatype 'f event = ValidateOrderCall "'f OrderInfo" bool | PlaceOrderCall "'f OrderRequest"

subsection \<open>Order execution\<close>

definition executeBuyOrder ::
  "'f float_ops \<Rightarrow> ('f, 'w) Collaborators \<Rightarrow> 'f Engine \<Rightarrow> 'w \<Rightarrow> string \<Rightarrow> 'f Signal
     \<Rightarrow> string option \<times> 'f Engine \<times> 'w \<times> 'f event list" where
  "executeBuyOrder F c e w symbol signal =
     (let orderRequest = \<lparr>or_Symbol = symbol, or_Side = ''BUY'', or_Type = ''MARKET'',
            or_Quantity = Quantity signal, or_PositionSide = ''BOTH'', or_ClosePosition = False,
            or_NewClientOrderID = ''buy_%s_%d''\<rparr>
      in case PlaceOrder c w orderRequest of
           (Inl err, w1) \<Rightarrow> (Some ''failed to place buy order: %w'', e, w1, [PlaceOrderCall orderRequest])
         | (Inr response, w1) \<Rightarrow>
             (let w2 = CreateOrder c w1 response (Name (strategy e)) (Reason signal);
                  w3 = (if resp_Status response = ''FILLED''
                        then CreatePosition c w2
                               \<lparr>pos_ID = 0, pos_Symbol = symbol, pos_PositionSide = ''LONG'',
                                pos_Size = resp_ExecutedQty response,
                                pos_EntryPrice = resp_AvgPrice response, pos_Status = ''OPEN''\<rparr>
                        else w2)
              in (None, e\<lparr>totalTrades := totalTrades e + 1\<rparr>, w3, [PlaceOrderCall orderRequest])))"

definition executeSellOrder ::
  "'f float_ops \<Rightarrow> ('f, 'w) Collaborators \<Rightarrow> 'f Engine \<Rightarrow> 'w \<Rightarrow> string \<Rightarrow> 'f Signal \<Rightarrow> 'f Position
     \<Rightarrow> string option \<times> 'f Engine \<times> 'w \<times> 'f event list" where
  "executeSellOrder F c e w symbol signal position =
     (let orderRequest = \<lparr>or_Symbol = symbol, or_Side = ''SELL'', or_Type = ''MARKET'',
            or_Quantity = pos_Size position, or_PositionSide = ''BOTH'', or_ClosePosition = False,
            or_NewClientOrderID = ''sell_%s_%d''\<rparr>
      in case PlaceOrder c w orderRequest of
           (Inl err, w1) \<Rightarrow> (Some ''failed to place sell order: %w'', e, w1, [PlaceOrderCall orderRequest])
         | (Inr response, w1) \<Rightarrow>
             (let w2 = CreateOrder c w1 response (Name (strategy e)) (Reason signal)
              in if resp_Status response = ''FILLED''
                 then (let pnl = fmul F (fsub F (resp_AvgPrice response) (pos_EntryPrice position))
                                  (pos_Size position);
                           w3 = ClosePosition c w2 (pos_ID position) (resp_AvgPrice response) pnl;
                           e1 = e\<lparr>dailyPnL := fadd F (dailyPnL e) pnl\<rparr>;
                           e2 = (if fgt F pnl (lit F 0) then e1\<lparr>winningTrades := winningTrades e1 + 1\<rparr>
                                 else e1\<lparr>losingTrades := losingTrades e1 + 1\<rparr>)
                       in (None, e2, w3, [PlaceOrderCall orderRequest]))
                 else (None, e, w2, [PlaceOrderCall orderRequest])))"

subsection \<open>The decision task\<close>

definition getMarketData :: "'f Engine \<Rightarrow> string \<Rightarrow> string + 'f MarketData" where
  "getMarketData e symbol =
     (case marketData e symbol of
        None \<Rightarrow> Inl ''no market data available for %s''
      | Some kline \<Rightarrow> Inr \<lparr>md_Symbol = symbol, md_Price = kl_Close kline, md_Volume = kl_Volume kline\<rparr>)"

text \<open>
  The branch for a symbol with an open position: ask the strategy for a sell signal and,
  on \<open>SELL\<close>, execute the sell order. An error of the execution is logged.
\<close>

definition sell_branch ::
  "'f float_ops \<Rightarrow> ('f, 'w) Collaborators \<Rightarrow> 'f Engine \<Rightarrow> 'w \<Rightarrow> string \<Rightarrow> 'f MarketData
     \<Rightarrow> 'f Position \<Rightarrow> (string option \<times> 'f Engine \<times> 'w \<times> 'f event list) option" where
  "sell_branch F c e w symbol data position =
     (case ShouldSell F (strategy e) symbol data position of
        None \<Rightarrow> None
      | Some (sellSignal, st) \<Rightarrow>
          (let e1 = e\<lparr>strategy := st\<rparr>
           in if Action sellSignal = ''SELL''
              then (case executeSellOrder F c e1 w symbol sellSignal position of
                      (err, e2, w2, evs) \<Rightarrow> Some (None, e2, w2, evs))
              else Some (None, e1, w, [])))"

text \<open>
  The branch for a symbol without an open position: ask the strategy for a buy signal
  and, on \<open>BUY\<close>, have the risk manager validate the order; execute it on approval.
\<close>

definition buy_branch ::
  "'f float_ops \<Rightarrow> ('f, 'w) Collaborators \<Rightarrow> 'f Engine \<Rightarrow> 'w \<Rightarrow> Time \<Rightarrow> string \<Rightarrow> 'f MarketData
     \<Rightarrow> (string option \<times> 'f Engine \<times> 'w \<times> 'f event list) option" where
  "buy_branch F c e w now symbol data =
     (case ShouldBuy F (strategy e) symbol data of
        None \<Rightarrow> None
      | Some (buySignal, st) \<Rightarrow>
          (let e1 = e\<lparr>strategy := st\<rparr>
           in if Action buySignal = ''BUY''
              then (let order = \<lparr>oi_Symbol = symbol, oi_Side = ''BUY'',
                                   oi_Quantity = Quantity buySignal, oi_Price = Price buySignal\<rparr>
                    in case ValidateOrder F now (riskManager e1) order of
                         (approved, rm) \<Rightarrow>
                           (let e2 = e1\<lparr>riskManager := rm\<rparr>
                            in if \<not> approved then Some (None, e2, w, [ValidateOrderCall order False])
                               else (case executeBuyOrder F c e2 w symbol buySignal of
                                       (err, e3, w3, evs) \<Rightarrow>
                                         Some (None, e3, w3, ValidateOrderCall order True # evs))))
              else Some (None, e1, w, [])))"

text \<open>
  \<open>processSymbolSignals\<close> tests \<open>position != nil && position.Status == "OPEN"\<close> and then
  the negation of the same condition on the same, unchanged variable, so exactly one
  of the two branches runs.
\<close>

definition processSymbolSignals ::
  "'f float_ops \<Rightarrow> ('f, 'w) Collaborators \<Rightarrow> 'f Engine \<Rightarrow> 'w \<Rightarrow> Time \<Rightarrow> string
     \<Rightarrow> (string option \<times> 'f Engine \<times> 'w \<times> 'f event list) option" where
  "processSymbolSignals F c e w now symbol =
     (case getMarketData e symbol of
        Inl err \<Rightarrow> Some (Some ''failed to get market data for %s: %w'', e, w, [])
      | Inr data \<Rightarrow>
          (case GetPosition c w symbol ''LONG'' of
             Inl ErrOther \<Rightarrow> Some (Some ''failed to get position for %s: %w'', e, w, [])
           | Inl ErrRecordNotFound \<Rightarrow> buy_branch F c e w now symbol data
           | Inr position \<Rightarrow>
               if pos_Status position = ''OPEN''
               then sell_branch F c e w symbol data position
               else buy_branch F c e w now symbol data))"

fun process_symbols ::
  "'f float_ops \<Rightarrow> ('f, 'w) Collaborators \<Rightarrow> 'f Engine \<Rightarrow> 'w \<Rightarrow> Time \<Rightarrow> string list
     \<Rightarrow> ('f Engine \<times> 'w \<times> 'f event list) option" where
  "process_symbols F c e w now [] = Some (e, w, [])"
| "process_symbols F c e w now (symbol # rest) =
     (case processSymbolSignals F c e w now symbol of
        None \<Rightarrow> None
      | Some (err, e1, w1, evs) \<Rightarrow>
          (case process_symbols F c e1 w1 now rest of
             None \<Rightarrow> None
           | Some (e2, w2, evs') \<Rightarrow> Some (e2, w2, evs @ evs')))"

definition processTradingSignals ::
  "'f float_ops \<Rightarrow> ('f, 'w) Collaborators \<Rightarrow> 'f Engine \<Rightarrow> 'w \<Rightarrow> Time
     \<Rightarrow> ('f Engine \<times> 'w \<times> 'f event list) option" where
  "processTradingSignals F c e w now =
     (if cfg_EnablePaperTrading (e_config e) then Some (e, w, [])
      else process_symbols F c e w now (cfg_Symbols (e_config e)))"


section \<open>Traces of the decision task\<close>

text \<open>
  A trace is well validated when every \<open>BUY\<close> order handed to the venue comes directly
  after an approving verdict of the risk manager on an order for the same symbol and
  quantity. The first argument is the event before the trace, if any.
\<close>

fun validated_from :: "'f event option \<Rightarrow> 'f event list \<Rightarrow> bool" where
  "validated_from prev [] = True"
| "validated_from prev (ev # evs) =
     ((case ev of
         PlaceOrderCall req \<Rightarrow>
           or_Side req = ''BUY'' \<longrightarrow>
             (case prev of
                Some (ValidateOrderCall order ok) \<Rightarrow>
                  ok \<and> oi_Symbol order = or_Symbol req \<and> oi_Quantity order = or_Quantity req
              | _ \<Rightarrow> False)
       | ValidateOrderCall order ok \<Rightarrow> True)
      \<and> validated_from (Some ev) evs)"

text \<open>The order requests that \<open>executeSellOrder\<close> and \<open>executeBuyOrder\<close> build.\<close>

definition sell_request :: "string \<Rightarrow> 'f Position \<Rightarrow> 'f OrderRequest" where
  "sell_request symbol position = \<lparr>or_Symbol = symbol, or_Side = ''SELL'', or_Type = ''MARKET'',
     or_Quantity = pos_Size position, or_PositionSide = ''BOTH'', or_ClosePosition = False,
     or_NewClientOrderID = ''sell_%s_%d''\<rparr>"

definition buy_request :: "string \<Rightarrow> 'f \<Rightarrow> 'f OrderRequest" where
  "buy_request symbol quantity = \<lparr>or_Symbol = symbol, or_Side = ''BUY'', or_Type = ''MARKET'',
     or_Quantity = quantity, or_PositionSide = ''BOTH'', or_ClosePosition = False,
     or_NewClientOrderID = ''buy_%s_%d''\<rparr>"

section \<open>Feeding a price series\<close>

text \<open>A market snapshot at a given price; the strategies do not read the volume.\<close>

definition tick_at :: "'f float_ops \<Rightarrow> string \<Rightarrow> 'f \<Rightarrow> 'f MarketData" where
  "tick_at F symbol p = \<lparr>md_Symbol = symbol, md_Price = p, md_Volume = lit F 1\<rparr>"




section \<open>Feeding the grid strategy\<close>

text \<open>
  One evaluation of \<open>GridStrategy.ShouldBuy\<close> per pair of symbol and price, in order, each
  on the strategy as the last one left it. \<open>ShouldSell\<close> does not write the strategy, so
  calls of it in between change nothing.
\<close>

fun Grid_feed ::
  "'f float_ops \<Rightarrow> 'f GridStrategy \<Rightarrow> (string \<times> 'f) list \<Rightarrow> ('f Signal list \<times> 'f GridStrategy) option" where
  "Grid_feed F g [] = Some ([], g)"
| "Grid_feed F g ((symbol, p) # calls) =
     (case Grid_ShouldBuy F g symbol (tick_at F symbol p) of
        None \<Rightarrow> None
      | Some (signal, g1) \<Rightarrow>
          (case Grid_feed F g1 calls of
             None \<Rightarrow> None
           | Some (signals, g2) \<Rightarrow> Some (signal # signals, g2)))"

text \<open>The level array that \<open>initializeGrid\<close> lays out around a base price.\<close>

definition grid_levels :: "'f float_ops \<Rightarrow> 'f GridStrategy \<Rightarrow> 'f \<Rightarrow> 'f GridPosition list" where
  "grid_levels F g base =
     map (\<lambda>i. \<lparr>gp_Price = fmul F base (fadd F (lit F 1)
                               (fmul F (float_of_int F (int i - numGrids g sdiv 2)) (gridSize g))),
               gp_Quantity = lit F 0, gp_Active = False\<rparr>)
         [0 ..< nat (numGrids g)]"

section \<open>Scenarios in exact arithmetic\<close>

text \<open>
  The concrete scenarios below are evaluated with the operations \<open>exact\<close>. Their numbers
  are small integers and quotients far from every threshold they are compared with.
\<close>

text \<open>Clock readings around a change of date.\<close>

definition t_jan31_late :: Time where
  "t_jan31_late = \<lparr>Year = 2024, Month = 1, Day = 31, clock = 86399\<rparr>"

definition t_feb01_early :: Time where
  "t_feb01_early = \<lparr>Year = 2024, Month = 2, Day = 1, clock = 1\<rparr>"

definition t_feb01_evening :: Time where
  "t_feb01_evening = \<lparr>Year = 2024, Month = 2, Day = 1, clock = 64800\<rparr>"

text \<open>
  The risk configuration that \<open>NewEngine\<close> builds from the defaults of the configuration
  loader, and risk managers created from it.
\<close>

definition default_risk_config :: "real RiskConfig" where
  "default_risk_config = \<lparr>MaxPositionSize = 1000, StopLossPercent = 2, TakeProfitPercent = 5,
     MaxDailyLoss = 500, MaxLeverage = 5, RiskPerTrade = 1, MaxDrawdown = 0, MaxOpenPositions = 0,
     MinOrderValue = 0, MaxOrderValue = 0, VaRLimit = 0, CorrelationLimit = 0\<rparr>"

definition fresh_risk_manager :: "real RiskManager" where
  "fresh_risk_manager = NewRiskManager exact t_feb01_early default_risk_config"

definition busy_risk_manager :: "real RiskManager" where
  "busy_risk_manager =
     (NewRiskManager exact t_jan31_late default_risk_config)\<lparr>dailyLoss := 120, dailyTrades := 7\<rparr>"

text \<open>A risk manager created late on 31 January and not called since.\<close>

definition overnight_risk_manager :: "real RiskManager" where
  "overnight_risk_manager = NewRiskManager exact t_jan31_late default_risk_config"

text \<open>Scenario D of the specification: exposure 900 of at most 1000.\<close>

definition exposed_risk_manager :: "real RiskManager" where
  "exposed_risk_manager = fresh_risk_manager\<lparr>totalExposure := 900, maxExposure := 1000\<rparr>"

definition order_of :: "real \<Rightarrow> real \<Rightarrow> real OrderInfo" where
  "order_of q p = \<lparr>oi_Symbol = ''BTCUSDT'', oi_Side = ''BUY'', oi_Quantity = q, oi_Price = p\<rparr>"

text \<open>The defaults of the configuration loader, with the strategy type set to \<open>grid\<close>.\<close>

definition grid_trading_config :: "real TradingConfig" where
  "grid_trading_config = \<lparr>cfg_Symbols = [''BTCUSDT'', ''ETHUSDT''], cfg_MaxPositionSize = 1000,
     cfg_StopLossPercent = 2, cfg_TakeProfitPercent = 5, cfg_MaxDailyLoss = 500,
     cfg_TradingInterval = 60, cfg_MinOrderValue = 10, cfg_MaxLeverage = 5, cfg_RiskPerTrade = 1,
     cfg_EnablePaperTrading = False,
     cfg_Strategy = \<lparr>sc_Type = ''grid'', sc_Parameters = Map.empty, sc_EnableSignalFilters = True\<rparr>\<rparr>"

text \<open>
  A venue that holds one open long position, in \<open>BTCUSDT\<close>, and fills every order at 90;
  the loader's default configuration with paper trading switched off.
\<close>

definition long_btc :: "real Position" where
  "long_btc = \<lparr>pos_ID = 1, pos_Symbol = ''BTCUSDT'', pos_PositionSide = ''LONG'', pos_Size = 2,
     pos_EntryPrice = 100, pos_Status = ''OPEN''\<rparr>"

definition venue :: "(real, unit) Collaborators" where
  "venue = \<lparr>GetPosition = (\<lambda>w symbol side. if symbol = ''BTCUSDT'' then Inr long_btc
                                          else Inl ErrRecordNotFound),
            PlaceOrder = (\<lambda>w req. (Inr \<lparr>resp_OrderID = 1, resp_Status = ''FILLED'',
                                          resp_AvgPrice = 90, resp_ExecutedQty = or_Quantity req\<rparr>, w)),
            CreateOrder = (\<lambda>w response name notes. w),
            CreatePosition = (\<lambda>w position. w),
            ClosePosition = (\<lambda>w ident price pnl. w)\<rparr>"

definition live_trading_config :: "real TradingConfig" where
  "live_trading_config = \<lparr>cfg_Symbols = [''BTCUSDT'', ''ETHUSDT''], cfg_MaxPositionSize = 1000,
     cfg_StopLossPercent = 2, cfg_TakeProfitPercent = 5, cfg_MaxDailyLoss = 500,
     cfg_TradingInterval = 60, cfg_MinOrderValue = 10, cfg_MaxLeverage = 5, cfg_RiskPerTrade = 1,
     cfg_EnablePaperTrading = False,
     cfg_Strategy = \<lparr>sc_Type = ''simple_moving_average'', sc_Parameters = Map.empty,
                      sc_EnableSignalFilters = True\<rparr>\<rparr>"

definition kline_at :: "real \<Rightarrow> real KlineData" where
  "kline_at p = \<lparr>kl_Close = p, kl_Volume = 1, kl_CloseTime = 0\<rparr>"

text \<open>
  An engine after an emergency stop, with 19 prices of 100 on record for \<open>BTCUSDT\<close> and
  a latest close of 90.
\<close>

definition stopped_engine :: "real Engine" where
  "stopped_engine = (NewEngine exact t_feb01_early live_trading_config)
     \<lparr>strategy := SMA ((NewSMAStrategy exact)\<lparr>sma_priceHistory := [''BTCUSDT'' \<mapsto> replicate 19 100]\<rparr>),
      riskManager := EmergencyStop (NewRiskManager exact t_feb01_early default_risk_config) ''halt'',
      marketData := [''BTCUSDT'' \<mapsto> kline_at 90]\<rparr>"

text \<open>An engine configured with the \<open>ai\<close> strategy, with market data for both symbols.\<close>

definition ai_trading_config :: "real TradingConfig" where
  "ai_trading_config = live_trading_config
     \<lparr>cfg_Strategy := \<lparr>sc_Type = ''ai'', sc_Parameters = Map.empty, sc_EnableSignalFilters = True\<rparr>\<rparr>"

definition ai_engine :: "real Engine" where
  "ai_engine = (NewEngine exact t_feb01_early ai_trading_config)
     \<lparr>marketData := [''BTCUSDT'' \<mapsto> kline_at 90, ''ETHUSDT'' \<mapsto> kline_at 50]\<rparr>"

definition ai_tick_events :: "real event list" where
  "ai_tick_events =
     [PlaceOrderCall (sell_request ''BTCUSDT'' long_btc),
      ValidateOrderCall \<lparr>oi_Symbol = ''ETHUSDT'', oi_Side = ''BUY'', oi_Quantity = 0, oi_Price = 0\<rparr> True,
      PlaceOrderCall (buy_request ''ETHUSDT'' 0)]"

text \<open>Fifteen rising prices.\<close>

definition fifteen_rising :: "real list" where
  "fifteen_rising = [101, 102, 104, 105, 107, 108, 110, 111, 113, 114, 116, 117, 119, 120, 122]"

text \<open>
  A moving-average strategy with 19 prices of 100 on record, and a grid strategy whose
  minimum confidence was set through \<open>Initialize\<close>.
\<close>

definition warm_sma :: "real SMAStrategy" where
  "warm_sma = (NewSMAStrategy exact)\<lparr>sma_priceHistory := [''BTCUSDT'' \<mapsto> replicate 19 100]\<rparr>"

definition grid_with_confidence :: "real \<Rightarrow> real Strategy" where
  "grid_with_confidence m =
     snd (Initialize exact (Grid (NewGridStrategy exact)) [''min_confidence'' \<mapsto> PFloat m])"



text \<open>Histories of grid evaluations over three symbols.\<close>

definition zero_first_calls :: "(string \<times> real) list" where
  "zero_first_calls = [(''BTCUSDT'', 0), (''ETHUSDT'', 100)]"

definition later_calls :: "(string \<times> real) list" where
  "later_calls = [(''SOLUSDT'', 50), (''SOLUSDT'', 99), (''ETHUSDT'', 98)]"

section \<open>The exact operations\<close>

lemma exact_ops [simp]:
  "fadd exact a b = a + b" "fsub exact a b = a - b" "fmul exact a b = a * b"
  "fdiv exact a b = a / b" "fneg exact a = - a" "fmin exact a b = min a b"
  "flt exact a b = (a < b)" "fle exact a b = (a \<le> b)" "feq exact a b = (a = b)"
  "lit exact x = x" "float_of_int exact i = real_of_int i" "int_of_float exact a = go_int a"
  by (simp_all add: exact_def)

lemma exact_cmp [simp]: "fgt exact a b = (b < a)" "fge exact a b = (b \<le> a)"
  by (simp_all add: fgt_def fge_def)

section \<open>Rolling price history\<close>

lemma trim_history_total: "0 \<le> maxLength \<Longrightarrow> \<exists>h'. trim_history h maxLength = Some h'"
  by (simp add: trim_history_def)

lemma trim_history_length:
  "trim_history h maxLength = Some h' \<Longrightarrow> int (length h') = min (int (length h)) maxLength"
  by (auto simp: trim_history_def split: if_splits)

lemma trim_history_suffix: "trim_history h maxLength = Some h' \<Longrightarrow> suffix h' h"
  by (auto simp: trim_history_def suffix_drop split: if_splits)

lemma SMA_update_props:
  assumes "SMA_updatePriceHistory s symbol price = Some s'"
  shows "longPeriod s' = longPeriod s \<and>
     int (length (history_of (sma_priceHistory s') symbol))
       = min (int (length (history_of (sma_priceHistory s) symbol)) + 1) (longPeriod s + 10) \<and>
     suffix (history_of (sma_priceHistory s') symbol) (history_of (sma_priceHistory s) symbol @ [price])"
proof -
  let ?h = "history_of (sma_priceHistory s) symbol @ [price]"
  from assms obtain h' where t: "trim_history ?h (longPeriod s + 10) = Some h'"
    and s': "s' = s\<lparr>sma_priceHistory := (sma_priceHistory s)(symbol \<mapsto> h')\<rparr>"
    by (auto simp: SMA_updatePriceHistory_def Let_def split: option.splits)
  have h: "history_of (sma_priceHistory s') symbol = h'"
    by (simp add: s' history_of_def)
  from trim_history_length [OF t] trim_history_suffix [OF t] show ?thesis
    by (simp add: h) (simp add: s')
qed

lemma SMA_update_panics:
  "(SMA_updatePriceHistory s symbol price = None) = (longPeriod s + 10 < 0)"
  by (auto simp: SMA_updatePriceHistory_def Let_def trim_history_def split: option.splits if_splits)

lemma RSI_update_props:
  assumes "RSI_updatePriceHistory r symbol price = Some r'"
  shows "period r' = period r \<and>
     int (length (history_of (rsi_priceHistory r') symbol))
       = min (int (length (history_of (rsi_priceHistory r) symbol)) + 1) (period r + 20) \<and>
     suffix (history_of (rsi_priceHistory r') symbol) (history_of (rsi_priceHistory r) symbol @ [price])"
proof -
  let ?h = "history_of (rsi_priceHistory r) symbol @ [price]"
  from assms obtain h' where t: "trim_history ?h (period r + 20) = Some h'"
    and r': "r' = r\<lparr>rsi_priceHistory := (rsi_priceHistory r)(symbol \<mapsto> h')\<rparr>"
    by (auto simp: RSI_updatePriceHistory_def Let_def split: option.splits)
  have h: "history_of (rsi_priceHistory r') symbol = h'"
    by (simp add: r' history_of_def)
  from trim_history_length [OF t] trim_history_suffix [OF t] show ?thesis
    by (simp add: h) (simp add: r')
qed

lemma RSI_update_panics:
  "(RSI_updatePriceHistory r symbol price = None) = (period r + 20 < 0)"
  by (auto simp: RSI_updatePriceHistory_def Let_def trim_history_def split: option.splits if_splits)

text \<open>
  Claim C7. Every update of a symbol's price history that returns leaves a history no
  longer than the cap (\<open>longPeriod + 10\<close> for SMA, \<open>period + 20\<close> for RSI). The new
  history is a suffix of the old one extended by the new price, of length the smaller of
  that list's length and the cap: what is dropped is dropped from the front, the oldest
  entries. The update panics exactly when the cap is negative. The prices are of an
  arbitrary type: the update does no arithmetic on them.
\<close>

theorem price_history_capped:
  "(\<forall>s'. SMA_updatePriceHistory s symbol price = Some s' \<longrightarrow>
      int (length (history_of (sma_priceHistory s') symbol)) \<le> longPeriod s' + 10 \<and>
      int (length (history_of (sma_priceHistory s') symbol))
        = min (int (length (history_of (sma_priceHistory s) symbol)) + 1) (longPeriod s + 10) \<and>
      suffix (history_of (sma_priceHistory s') symbol)
             (history_of (sma_priceHistory s) symbol @ [price])) \<and>
   ((SMA_updatePriceHistory s symbol price = None) = (longPeriod s + 10 < 0)) \<and>
   (\<forall>r'. RSI_updatePriceHistory r symbol' price' = Some r' \<longrightarrow>
      int (length (history_of (rsi_priceHistory r') symbol')) \<le> period r' + 20 \<and>
      int (length (history_of (rsi_priceHistory r') symbol'))
        = min (int (length (history_of (rsi_priceHistory r) symbol')) + 1) (period r + 20) \<and>
      suffix (history_of (rsi_priceHistory r') symbol')
             (history_of (rsi_priceHistory r) symbol' @ [price'])) \<and>
   ((RSI_updatePriceHistory r symbol' price' = None) = (period r + 20 < 0))"
  using SMA_update_props [of s symbol price] SMA_update_panics [of s symbol price]
        RSI_update_props [of r symbol' price'] RSI_update_panics [of r symbol' price']
  by simp

text \<open>
  An SMA history at its cap of 30 takes a new price and stays at 30 entries, the first
  one gone; a fresh RSI strategy takes its first price.
\<close>

theorem price_history_capped_witness:
  "\<exists>s' r'.
     SMA_updatePriceHistory ((NewSMAStrategy exact)\<lparr>sma_priceHistory := [''BTCUSDT'' \<mapsto> replicate 30 1]\<rparr>)
       ''BTCUSDT'' 2 = Some s' \<and>
     int (length (history_of (sma_priceHistory s') ''BTCUSDT'')) = 30 \<and>
     suffix (history_of (sma_priceHistory s') ''BTCUSDT'') (replicate 30 1 @ [2]) \<and>
     RSI_updatePriceHistory (NewRSIStrategy exact) ''ETHUSDT'' 5 = Some r' \<and>
     int (length (history_of (rsi_priceHistory r') ''ETHUSDT'')) = 1"
proof -
  let ?s = "(NewSMAStrategy exact)\<lparr>sma_priceHistory := [''BTCUSDT'' \<mapsto> replicate 30 1]\<rparr>"
  note c = price_history_capped [of ?s "''BTCUSDT''" 2 "NewRSIStrategy exact" "''ETHUSDT''" 5]
  from c have "SMA_updatePriceHistory ?s ''BTCUSDT'' 2 \<noteq> None"
    by (simp add: NewSMAStrategy_def)
  then obtain s' where s': "SMA_updatePriceHistory ?s ''BTCUSDT'' 2 = Some s'" by blast
  from c have "RSI_updatePriceHistory (NewRSIStrategy exact) ''ETHUSDT'' 5 \<noteq> None"
    by (simp add: NewRSIStrategy_def)
  then obtain r' where r': "RSI_updatePriceHistory (NewRSIStrategy exact) ''ETHUSDT'' 5 = Some r'" by blast
  from c s' r' show ?thesis
    by (simp add: NewSMAStrategy_def NewRSIStrategy_def history_of_def)
qed

section \<open>Daily reset\<close>

text \<open>
  Claim C8. The daily counters are reset when, and only when, the date of the clock
  reading differs from the date of the last reset in day, month or year; the time within
  the day plays no part. The reset stores the clock reading, so a further check on that
  date changes nothing. This holds whatever the operations of \<open>float64\<close> are.
\<close>

theorem daily_reset_once:
  "(\<not> same_date now (lastResetDate rm) \<longrightarrow>
      resetDailyCountersIfNeeded F now rm
        = rm\<lparr>dailyLoss := lit F 0, dailyTrades := 0, lastResetDate := now\<rparr>) \<and>
   (same_date now (lastResetDate rm) \<longrightarrow> resetDailyCountersIfNeeded F now rm = rm) \<and>
   (same_date later now \<longrightarrow>
      resetDailyCountersIfNeeded F later (resetDailyCountersIfNeeded F now rm)
        = resetDailyCountersIfNeeded F now rm)"
  by (auto simp: resetDailyCountersIfNeeded_def same_date_def)

text \<open>
  Two seconds after the last reading of 31 January the date is 1 February: the counters
  are reset. A loss of 40 is booked; the check of the evening leaves it in place.
\<close>

theorem daily_reset_once_witness:
  "\<not> same_date t_feb01_early (lastResetDate busy_risk_manager) \<and>
   same_date t_feb01_evening t_feb01_early \<and>
   dailyLoss (resetDailyCountersIfNeeded exact t_feb01_early busy_risk_manager) = 0 \<and>
   dailyTrades (resetDailyCountersIfNeeded exact t_feb01_early busy_risk_manager) = 0 \<and>
   lastResetDate (resetDailyCountersIfNeeded exact t_feb01_early busy_risk_manager) = t_feb01_early \<and>
   resetDailyCountersIfNeeded exact t_feb01_evening
     (UpdateDailyLoss exact t_feb01_early busy_risk_manager 40)
     = UpdateDailyLoss exact t_feb01_early busy_risk_manager 40 \<and>
   dailyLoss (UpdateDailyLoss exact t_feb01_early busy_risk_manager 40) = 40"
proof -
  have a: "\<not> same_date t_feb01_early (lastResetDate busy_risk_manager)"
    by (simp add: same_date_def busy_risk_manager_def NewRiskManager_def t_feb01_early_def t_jan31_late_def)
  have b: "same_date t_feb01_evening t_feb01_early"
    by (simp add: same_date_def t_feb01_early_def t_feb01_evening_def)
  have c: "same_date t_feb01_evening
             (lastResetDate (UpdateDailyLoss exact t_feb01_early busy_risk_manager 40))"
    using a b by (simp add: UpdateDailyLoss_def Let_def resetDailyCountersIfNeeded_def same_date_def)
  from daily_reset_once [where F = exact and now = t_feb01_early and rm = busy_risk_manager
         and later = t_feb01_evening] a b
    daily_reset_once [where F = exact and now = t_feb01_evening
         and rm = "UpdateDailyLoss exact t_feb01_early busy_risk_manager 40"
         and later = t_feb01_evening] c
  show ?thesis
    by (simp add: UpdateDailyLoss_def Let_def)
qed

section \<open>Order validation\<close>

lemma ValidateOrder_state:
  "snd (ValidateOrder F now rm0 order) = resetDailyCountersIfNeeded F now rm0"
  by (simp add: ValidateOrder_def Let_def)

text \<open>
  Claim C2, as stated, fails: an order of notional 1200 is rejected by a fresh risk manager
  with a position-size cap of 1000, although its notional is not below the minimum order
  value, the projected exposure 1200 is within the maximum exposure 10000, and the daily
  loss 0 is below the maximum daily loss 500.
\<close>

theorem ValidateOrder_counterexample:
  "\<not> fst (ValidateOrder exact t_feb01_evening fresh_risk_manager (order_of 2 600)) \<and>
   \<not> flt exact (orderValue exact (order_of 2 600)) (MinOrderValue (config fresh_risk_manager)) \<and>
   \<not> fgt exact (fadd exact (totalExposure fresh_risk_manager) (orderValue exact (order_of 2 600)))
         (maxExposure fresh_risk_manager) \<and>
   \<not> fge exact (dailyLoss fresh_risk_manager) (MaxDailyLoss (config fresh_risk_manager))"
  by (simp add: ValidateOrder_def Let_def isTradingAllowed_def validateOrderSize_def
      validatePositionSize_def validateDailyLossLimit_def validateExposureLimit_def
      validateRiskPerTrade_def orderValue_def resetDailyCountersIfNeeded_def
      fresh_risk_manager_def NewRiskManager_def default_risk_config_def order_of_def
      t_feb01_early_def t_feb01_evening_def)

text \<open>
  Claim C2, amended. \<open>ValidateOrder\<close> first performs the daily reset and returns the risk
  manager as the reset leaves it. On that state, with the notional the \<open>float64\<close> product
  of quantity and price, it rejects exactly when one of these comparisons of \<open>float64\<close>
  values is true: the cap on daily trades is set and reached; the daily loss is at least
  its maximum; the notional is below the minimum order value; a maximum order value is
  set and the notional is above it; the notional is above the maximum position size; the
  \<open>float64\<close> sum of total exposure and notional is above the maximum exposure; the risk
  amount is above the risk budget. It approves when none of them is true. In
  particular each of the three conditions of the claim forces a rejection. Nothing is
  assumed of the operations of \<open>float64\<close>: rounding, infinities and NaN are covered.
\<close>

theorem ValidateOrder_verdict:
  "snd (ValidateOrder F now rm0 order) = resetDailyCountersIfNeeded F now rm0 \<and>
   (\<not> fst (ValidateOrder F now rm0 order) \<longleftrightarrow>
      (let rm = resetDailyCountersIfNeeded F now rm0;
           notional = fmul F (oi_Quantity order) (oi_Price order) in
       (MaxOpenPositions (config rm) > 0 \<and> dailyTrades rm \<ge> MaxOpenPositions (config rm)) \<or>
       fge F (dailyLoss rm) (MaxDailyLoss (config rm)) \<or>
       flt F notional (MinOrderValue (config rm)) \<or>
       (fgt F (MaxOrderValue (config rm)) (lit F 0) \<and> fgt F notional (MaxOrderValue (config rm))) \<or>
       fgt F notional (MaxPositionSize (config rm)) \<or>
       fgt F (fadd F (totalExposure rm) notional) (maxExposure rm) \<or>
       fgt F (fmul F notional (fdiv F (RiskPerTrade (config rm)) (lit F 100)))
             (fmul F (MaxPositionSize (config rm)) (fdiv F (RiskPerTrade (config rm)) (lit F 100))))) \<and>
   ((let rm = resetDailyCountersIfNeeded F now rm0;
         notional = fmul F (oi_Quantity order) (oi_Price order) in
       flt F notional (MinOrderValue (config rm)) \<or>
       fgt F (fadd F (totalExposure rm) notional) (maxExposure rm) \<or>
       fge F (dailyLoss rm) (MaxDailyLoss (config rm)))
     \<longrightarrow> \<not> fst (ValidateOrder F now rm0 order))"
  by (auto simp: ValidateOrder_def Let_def isTradingAllowed_def validateOrderSize_def
      validatePositionSize_def validateDailyLossLimit_def validateExposureLimit_def
      validateRiskPerTrade_def orderValue_def)

text \<open>
  Scenario D: with exposure 900 of at most 1000, an order of notional 150 projects to
  1050 and is rejected; an order of notional 50 passes every check and is approved.
\<close>

theorem ValidateOrder_verdict_witness:
  "fgt exact (fadd exact (totalExposure exposed_risk_manager) (fmul exact (3 / 2) 100))
      (maxExposure exposed_risk_manager) \<and>
   \<not> fst (ValidateOrder exact t_feb01_evening exposed_risk_manager (order_of (3 / 2) 100)) \<and>
   fst (ValidateOrder exact t_feb01_evening exposed_risk_manager (order_of (1 / 2) 100))"
  using ValidateOrder_verdict [where F = exact and now = t_feb01_evening
          and ?rm0.0 = exposed_risk_manager and order = "order_of (3 / 2) 100"]
        ValidateOrder_verdict [where F = exact and now = t_feb01_evening
          and ?rm0.0 = exposed_risk_manager and order = "order_of (1 / 2) 100"]
  by (simp add: exposed_risk_manager_def fresh_risk_manager_def NewRiskManager_def
      default_risk_config_def order_of_def t_feb01_early_def t_feb01_evening_def
      resetDailyCountersIfNeeded_def Let_def)

section \<open>Emergency stop\<close>

text \<open>
  What holds of the latch: a \<open>ValidateOrder\<close> that directly follows an emergency stop
  rejects when its clock reading has the date of the last reset, provided the maximum
  daily loss compares as at least itself (it is not NaN).
\<close>

lemma EmergencyStop_rejects_on_reset_date:
  assumes "same_date now (lastResetDate rm)"
      and "fge F (MaxDailyLoss (config rm)) (MaxDailyLoss (config rm))"
  shows "\<not> isTradingAllowed F (resetDailyCountersIfNeeded F now (EmergencyStop rm reason)) \<and>
         \<not> fst (ValidateOrder F now (EmergencyStop rm reason) order)"
  using assms
  by (simp add: same_date_def ValidateOrder_def Let_def isTradingAllowed_def
      resetDailyCountersIfNeeded_def EmergencyStop_def)

text \<open>
  \<open>UpdateDailyLoss\<close> adds its argument whatever its sign: booking \<open>-100\<close> after an
  emergency stop brings the daily loss to 400, below the maximum of 500, and the next
  order is approved on the same date. No caller in the repository books a loss.
\<close>

lemma UpdateDailyLoss_reopens:
  "fst (ValidateOrder exact t_feb01_evening
          (rm_run exact (EmergencyStop fresh_risk_manager ''halt'')
             [(t_feb01_evening, CallUpdateDailyLoss (- 100))])
          (order_of 1 100)) \<and>
   same_date t_feb01_evening (lastResetDate fresh_risk_manager)"
  by (simp add: ValidateOrder_def Let_def isTradingAllowed_def validateOrderSize_def
      validatePositionSize_def validateDailyLossLimit_def validateExposureLimit_def
      validateRiskPerTrade_def fresh_risk_manager_def NewRiskManager_def default_risk_config_def
      order_of_def orderValue_def resetDailyCountersIfNeeded_def t_feb01_early_def t_feb01_evening_def
      rm_run_def UpdateDailyLoss_def EmergencyStop_def same_date_def)

text \<open>
  Claim C9 fails in the code. \<open>EmergencyStop\<close> sets the daily loss to the configured
  maximum but, unlike \<open>ValidateOrder\<close>, \<open>UpdateDailyLoss\<close>, \<open>UpdateDailyTrades\<close> and
  \<open>GetRiskMetrics\<close>, it does not perform the daily reset first, so it leaves the date of
  the last reset as it was. When that date is not the date of the clock, which is the
  case for a stop that is the first call of the risk manager on a day, the reset at the
  start of the next \<open>ValidateOrder\<close> of that same day zeroes the daily loss: the verdict
  and the state returned are those of a risk manager that was never stopped.
\<close>

theorem EmergencyStop_undone_by_reset:
  assumes "\<not> same_date now (lastResetDate rm)"
  shows "dailyLoss (EmergencyStop rm reason) = MaxDailyLoss (config rm) \<and>
         lastResetDate (EmergencyStop rm reason) = lastResetDate rm \<and>
         dailyLoss (resetDailyCountersIfNeeded F now (EmergencyStop rm reason)) = lit F 0 \<and>
         ValidateOrder F now (EmergencyStop rm reason) order = ValidateOrder F now rm order"
  using assms
  by (simp add: same_date_def ValidateOrder_def Let_def EmergencyStop_def
      resetDailyCountersIfNeeded_def isTradingAllowed_def validateOrderSize_def
      validatePositionSize_def validateDailyLossLimit_def validateExposureLimit_def
      validateRiskPerTrade_def)

text \<open>
  A risk manager is created late on 31 January. The emergency stop is called early on
  1 February, as the first call of that day. In the evening of the same 1 February, with
  no change of date since the stop, an order of notional 100 is approved.
\<close>

theorem EmergencyStop_undone_by_reset_witness:
  "\<not> same_date t_feb01_evening (lastResetDate overnight_risk_manager) \<and>
   same_date t_feb01_evening t_feb01_early \<and>
   dailyLoss (rm_run exact overnight_risk_manager [(t_feb01_early, CallEmergencyStop ''halt'')]) = 500 \<and>
   fst (ValidateOrder exact t_feb01_evening
          (rm_run exact overnight_risk_manager [(t_feb01_early, CallEmergencyStop ''halt'')])
          (order_of 1 100))"
proof -
  have a: "\<not> same_date t_feb01_evening (lastResetDate overnight_risk_manager)"
    by (simp add: same_date_def overnight_risk_manager_def NewRiskManager_def t_jan31_late_def
        t_feb01_evening_def)
  have b: "same_date t_feb01_evening t_feb01_early"
    by (simp add: same_date_def t_feb01_early_def t_feb01_evening_def)
  have c: "fst (ValidateOrder exact t_feb01_evening overnight_risk_manager (order_of 1 100))"
    by (simp add: ValidateOrder_def Let_def isTradingAllowed_def validateOrderSize_def
        validatePositionSize_def validateDailyLossLimit_def validateExposureLimit_def
        validateRiskPerTrade_def overnight_risk_manager_def NewRiskManager_def
        default_risk_config_def order_of_def orderValue_def resetDailyCountersIfNeeded_def
        t_jan31_late_def t_feb01_evening_def)
  from EmergencyStop_undone_by_reset [OF a, where F = exact and reason = "''halt''"
         and order = "order_of 1 100"] a b c
  show ?thesis
    by (simp add: rm_run_def overnight_risk_manager_def NewRiskManager_def default_risk_config_def)
qed

section \<open>Strategy selection\<close>

lemma strategy_for_type_cases:
  "strategy_for_type F ''simple_moving_average'' = SMA (NewSMAStrategy F) \<and>
   strategy_for_type F ''rsi'' = RSI (NewRSIStrategy F) \<and>
   strategy_for_type F ''ai'' = AI NewAIStrategy \<and>
   (t \<notin> {''simple_moving_average'', ''rsi'', ''ai''} \<longrightarrow>
      strategy_for_type F t = SMA (NewSMAStrategy F))"
  by (simp add: strategy_for_type_def)

text \<open>
  Claim C3. The \<open>switch\<close> of \<open>NewEngine\<close> has no case for \<open>grid\<close>: the type string falls
  to the default case, and an engine configured with it runs the moving-average
  strategy. \<open>NewGridStrategy\<close> is never called.
\<close>

theorem grid_type_gets_default:
  "strategy_for_type F ''grid'' = SMA (NewSMAStrategy F) \<and>
   strategy_for_type F ''grid'' \<noteq> Grid (NewGridStrategy F) \<and>
   strategy (NewEngine exact t_feb01_early grid_trading_config) = SMA (NewSMAStrategy exact) \<and>
   strategy (NewEngine exact t_feb01_early grid_trading_config) \<noteq> Grid (NewGridStrategy exact)"
  by (simp add: strategy_for_type_def NewEngine_def grid_trading_config_def Let_def
      SMA_Initialize_def float_param_def NewSMAStrategy_def)

section \<open>Moving averages as sums\<close>

lemma foldl_add_sum: "foldl (\<lambda>acc i. acc + f i) a is = a + sum_list (map f is)"
  for a :: real
  by (induction "is" arbitrary: a) (simp_all add: add.assoc)

lemma map_nth_from: "m \<le> length xs \<Longrightarrow> map ((!) xs) [m ..< length xs] = drop m xs"
proof -
  have "map ((!) xs) [m ..< length xs] = map ((!) xs) (drop m [0 ..< length xs])"
    by simp
  also have "\<dots> = drop m (map ((!) xs) [0 ..< length xs])"
    by (simp only: drop_map)
  finally show ?thesis by (simp add: map_nth)
qed

lemma calculateSMA_sum:
  "\<not> int (length prices) < n \<Longrightarrow>
     calculateSMA exact prices n
       = sum_list (drop (nat (int (length prices) - n)) prices) / real_of_int n"
  by (cases "0 \<le> n") (simp_all add: calculateSMA_def foldl_add_sum map_nth_from)

section \<open>Orders of the decision task\<close>

lemma validated_from_weaken: "validated_from None evs \<Longrightarrow> validated_from p evs"
  by (cases evs) (auto split: event.splits)

lemma validated_from_append:
  "validated_from p a \<Longrightarrow> validated_from None b \<Longrightarrow> validated_from p (a @ b)"
  by (induction a arbitrary: p) (auto intro: validated_from_weaken split: event.splits)

lemma executeSellOrder_events:
  "executeSellOrder F c e w symbol signal position = (err, e', w', evs) \<Longrightarrow>
     evs = [PlaceOrderCall (sell_request symbol position)] \<and> riskManager e' = riskManager e"
  by (auto simp: executeSellOrder_def sell_request_def Let_def split: prod.splits sum.splits if_splits)

lemma executeBuyOrder_events:
  "executeBuyOrder F c e w symbol signal = (err, e', w', evs) \<Longrightarrow>
     (\<exists>req. evs = [PlaceOrderCall req] \<and> or_Side req = ''BUY'' \<and> or_Symbol req = symbol
        \<and> or_Quantity req = Quantity signal) \<and> riskManager e' = riskManager e"
  by (auto simp: executeBuyOrder_def Let_def split: prod.splits sum.splits if_splits)

lemma sell_branch_events:
  "sell_branch F c e w symbol data position = Some (err, e', w', evs) \<Longrightarrow>
     (evs = [] \<or> evs = [PlaceOrderCall (sell_request symbol position)]) \<and> riskManager e' = riskManager e"
  by (auto simp: sell_branch_def Let_def split: option.splits prod.splits if_splits
      dest: executeSellOrder_events)

lemma buy_branch_events:
  assumes "buy_branch F c e w now symbol data = Some (err, e', w', evs)"
  shows "validated_from None evs \<and>
         (\<forall>order ok. ValidateOrderCall order ok \<in> set evs \<longrightarrow>
            ok = fst (ValidateOrder F now (riskManager e) order))"
  using assms
  by (auto simp: buy_branch_def Let_def split: option.splits prod.splits if_splits
      dest!: executeBuyOrder_events)

lemma sell_request_not_buy: "or_Side (sell_request symbol position) \<noteq> ''BUY''"
  by (simp add: sell_request_def)

lemma processSymbolSignals_events:
  assumes "processSymbolSignals F c e w now symbol = Some (err, e', w', evs)"
  shows "validated_from None evs \<and>
         (\<forall>order ok. ValidateOrderCall order ok \<in> set evs \<longrightarrow>
            ok = fst (ValidateOrder F now (riskManager e) order))"
proof (cases "getMarketData e symbol")
  case (Inl a)
  with assms show ?thesis by (simp add: processSymbolSignals_def)
next
  case (Inr data)
  show ?thesis
  proof (cases "GetPosition c w symbol ''LONG''")
    case (Inl d)
    with Inr assms show ?thesis
      by (cases d) (auto simp: processSymbolSignals_def dest: buy_branch_events)
  next
    case pos: (Inr position)
    show ?thesis
    proof (cases "pos_Status position = ''OPEN''")
      case True
      with Inr pos assms have "sell_branch F c e w symbol data position = Some (err, e', w', evs)"
        by (simp add: processSymbolSignals_def)
      from sell_branch_events [OF this] show ?thesis
        by (auto simp: sell_request_not_buy)
    next
      case False
      with Inr pos assms have "buy_branch F c e w now symbol data = Some (err, e', w', evs)"
        by (simp add: processSymbolSignals_def)
      from buy_branch_events [OF this] show ?thesis .
    qed
  qed
qed

lemma process_symbols_events:
  "process_symbols F c e w now symbols = Some (e', w', evs) \<Longrightarrow> validated_from None evs"
proof (induction symbols arbitrary: e w e' w' evs)
  case Nil
  then show ?case by simp
next
  case (Cons symbol rest)
  from Cons.prems obtain err e1 w1 evs1 evs2
    where 1: "processSymbolSignals F c e w now symbol = Some (err, e1, w1, evs1)"
      and 2: "process_symbols F c e1 w1 now rest = Some (e', w', evs2)"
      and 3: "evs = evs1 @ evs2"
    by (auto split: option.splits prod.splits)
  from processSymbolSignals_events [OF 1] Cons.IH [OF 2] 3 show ?case
    by (simp add: validated_from_append)
qed

lemma sell_is_not_validated:
  assumes "getMarketData e symbol = Inr data"
      and "GetPosition c w symbol ''LONG'' = Inr position"
      and "pos_Status position = ''OPEN''"
      and "ShouldSell F (strategy e) symbol data position = Some (signal, st)"
      and "Action signal = ''SELL''"
  shows "\<exists>e' w'. processSymbolSignals F c e w now symbol
            = Some (None, e', w', [PlaceOrderCall (sell_request symbol position)])
          \<and> riskManager e' = riskManager e"
proof -
  obtain err e2 w2 evs where x: "executeSellOrder F c (e\<lparr>strategy := st\<rparr>) w symbol signal position
      = (err, e2, w2, evs)"
    by (metis prod_cases4)
  from executeSellOrder_events [OF x] x assms show ?thesis
    by (simp add: processSymbolSignals_def sell_branch_def Let_def)
qed

lemma stopped_ShouldSell:
  "SMA_ShouldSell exact ((NewSMAStrategy exact)\<lparr>sma_priceHistory := [''BTCUSDT'' \<mapsto> replicate 19 100]\<rparr>)
     ''BTCUSDT'' \<lparr>md_Symbol = ''BTCUSDT'', md_Price = 90, md_Volume = 1\<rparr> long_btc
   = Some (exit_signal exact \<lparr>md_Symbol = ''BTCUSDT'', md_Price = 90, md_Volume = 1\<rparr> long_btc 1
             ''Stop loss triggered: %.2f%%'',
           (NewSMAStrategy exact)\<lparr>sma_priceHistory := [''BTCUSDT'' \<mapsto> replicate 19 100 @ [90]]\<rparr>)"
  by (simp add: SMA_ShouldSell_def SMA_updatePriceHistory_def trim_history_def history_of_def
      NewSMAStrategy_def Let_def calculateSMA_sum long_btc_def sum_list_replicate exit_signal_def
      pnlPercent_def)

text \<open>
  Claim C1, as stated, fails. After an emergency stop the risk manager rejects every
  order, also the one that describes this sale. The engine holds an open position in
  \<open>BTCUSDT\<close> entered at 100; at a close of 90 the strategy returns \<open>SELL\<close> (stop loss), and
  the tick hands the sell order to the venue with no call of \<open>ValidateOrder\<close>.
\<close>

theorem sell_counterexample:
  "map_option (snd \<circ> snd) (processTradingSignals exact venue stopped_engine () t_feb01_evening)
     = Some [PlaceOrderCall (sell_request ''BTCUSDT'' long_btc)] \<and>
   \<not> fst (ValidateOrder exact t_feb01_evening (riskManager stopped_engine)
            \<lparr>oi_Symbol = ''BTCUSDT'', oi_Side = ''SELL'', oi_Quantity = 2, oi_Price = 90\<rparr>)"
proof -
  have a: "getMarketData stopped_engine ''BTCUSDT''
             = Inr \<lparr>md_Symbol = ''BTCUSDT'', md_Price = 90, md_Volume = 1\<rparr>"
    by (simp add: getMarketData_def stopped_engine_def kline_at_def)
  have b: "getMarketData stopped_engine ''ETHUSDT'' = Inl ''no market data available for %s''"
    by (simp add: getMarketData_def stopped_engine_def)
  have c: "ShouldSell exact (strategy stopped_engine) ''BTCUSDT''
             \<lparr>md_Symbol = ''BTCUSDT'', md_Price = 90, md_Volume = 1\<rparr> long_btc
           = Some (exit_signal exact \<lparr>md_Symbol = ''BTCUSDT'', md_Price = 90, md_Volume = 1\<rparr> long_btc 1
                     ''Stop loss triggered: %.2f%%'',
                   SMA ((NewSMAStrategy exact)\<lparr>sma_priceHistory := [''BTCUSDT'' \<mapsto> replicate 19 100 @ [90]]\<rparr>))"
    by (simp add: stopped_engine_def stopped_ShouldSell)
  have d: "cfg_Symbols (e_config stopped_engine) = [''BTCUSDT'', ''ETHUSDT'']"
          "\<not> cfg_EnablePaperTrading (e_config stopped_engine)"
    by (simp_all add: stopped_engine_def NewEngine_def Let_def live_trading_config_def)
  have e: "GetPosition venue () ''BTCUSDT'' ''LONG'' = Inr long_btc" "pos_Status long_btc = ''OPEN''"
    by (simp_all add: venue_def long_btc_def)
  have f: "map_option (snd \<circ> snd) (processTradingSignals exact venue stopped_engine () t_feb01_evening)
     = Some [PlaceOrderCall (sell_request ''BTCUSDT'' long_btc)]"
  proof -
    from sell_is_not_validated [OF a e c, of t_feb01_evening] obtain e2 w2
      where h: "processSymbolSignals exact venue stopped_engine () t_feb01_evening ''BTCUSDT''
                  = Some (None, e2, w2, [PlaceOrderCall (sell_request ''BTCUSDT'' long_btc)])"
      by (auto simp: exit_signal_def)
    have "marketData e2 = marketData stopped_engine"
      using h by (auto simp: processSymbolSignals_def a e c sell_branch_def exit_signal_def
          executeSellOrder_def Let_def venue_def split: prod.splits if_splits)
    then have "getMarketData e2 ''ETHUSDT'' = Inl ''no market data available for %s''"
      using b by (simp add: getMarketData_def)
    with h show ?thesis
      by (simp add: processTradingSignals_def d processSymbolSignals_def)
  qed
  have g: "\<not> fst (ValidateOrder exact t_feb01_evening (riskManager stopped_engine)
            \<lparr>oi_Symbol = ''BTCUSDT'', oi_Side = ''SELL'', oi_Quantity = 2, oi_Price = 90\<rparr>)"
    by (simp add: stopped_engine_def ValidateOrder_def Let_def isTradingAllowed_def
        resetDailyCountersIfNeeded_def EmergencyStop_def NewRiskManager_def default_risk_config_def
        t_feb01_early_def t_feb01_evening_def)
  from f g show ?thesis by simp
qed

text \<open>
  Claim C1, amended. In a tick of the decision task every \<open>BUY\<close> order handed to the
  venue directly follows an approval by \<open>ValidateOrder\<close> of an order for that symbol and
  quantity, and every verdict recorded for a symbol is the verdict of \<open>ValidateOrder\<close> on
  the risk manager the engine held. For a symbol with an \<open>OPEN\<close> position for which the
  strategy returns \<open>SELL\<close>, the sell order for the size of the position is handed to the
  venue without a call of \<open>ValidateOrder\<close>, and the risk manager is left as it was.
\<close>

theorem decision_task_orders:
  "(processTradingSignals F c e w now = Some (e', w', evs) \<longrightarrow> validated_from None evs) \<and>
   (processSymbolSignals F c e w now symbol = Some (err, e1, w1, evs1) \<longrightarrow>
      (\<forall>order ok. ValidateOrderCall order ok \<in> set evs1 \<longrightarrow>
         ok = fst (ValidateOrder F now (riskManager e) order))) \<and>
   (getMarketData e symbol = Inr data \<and> GetPosition c w symbol ''LONG'' = Inr position \<and>
    pos_Status position = ''OPEN'' \<and>
    ShouldSell F (strategy e) symbol data position = Some (signal, st) \<and> Action signal = ''SELL''
    \<longrightarrow> (\<exists>e2 w2. processSymbolSignals F c e w now symbol
            = Some (None, e2, w2, [PlaceOrderCall (sell_request symbol position)])
          \<and> riskManager e2 = riskManager e))"
  using process_symbols_events [of F c e w now "cfg_Symbols (e_config e)" e' w' evs]
        processSymbolSignals_events [of F c e w now symbol err e1 w1 evs1]
        sell_is_not_validated [of e symbol data c w position F signal st now]
  by (auto simp: processTradingSignals_def split: if_splits)

text \<open>
  A tick of the engine with the \<open>ai\<close> strategy: the open position in \<open>BTCUSDT\<close> is sold
  unvalidated, the buy for \<open>ETHUSDT\<close> is validated, approved and placed.
\<close>

lemma ai_engine_tick:
  "map_option (snd \<circ> snd) (processTradingSignals exact venue ai_engine () t_feb01_evening)
     = Some ai_tick_events"
  by (simp add: processTradingSignals_def ai_engine_def NewEngine_def ai_trading_config_def
      live_trading_config_def strategy_for_type_def AI_Initialize_def Let_def
      processSymbolSignals_def getMarketData_def kline_at_def venue_def long_btc_def
      sell_branch_def buy_branch_def AI_ShouldSell_def AI_ShouldBuy_def Signal_zero_def
      executeSellOrder_def executeBuyOrder_def ValidateOrder_def isTradingAllowed_def
      validateOrderSize_def validatePositionSize_def validateDailyLossLimit_def
      validateExposureLimit_def validateRiskPerTrade_def orderValue_def
      resetDailyCountersIfNeeded_def NewRiskManager_def t_feb01_early_def t_feb01_evening_def
      ai_tick_events_def sell_request_def buy_request_def)

lemma ai_engine_eth:
  "map_option (snd \<circ> snd \<circ> snd) (processSymbolSignals exact venue ai_engine () t_feb01_evening ''ETHUSDT'')
     = Some [ValidateOrderCall
               \<lparr>oi_Symbol = ''ETHUSDT'', oi_Side = ''BUY'', oi_Quantity = 0, oi_Price = 0\<rparr> True,
             PlaceOrderCall (buy_request ''ETHUSDT'' 0)]"
  by (simp add: ai_engine_def NewEngine_def ai_trading_config_def
      live_trading_config_def strategy_for_type_def AI_Initialize_def Let_def
      processSymbolSignals_def getMarketData_def kline_at_def venue_def
      buy_branch_def AI_ShouldBuy_def Signal_zero_def
      executeBuyOrder_def ValidateOrder_def isTradingAllowed_def
      validateOrderSize_def validatePositionSize_def validateDailyLossLimit_def
      validateExposureLimit_def validateRiskPerTrade_def orderValue_def
      resetDailyCountersIfNeeded_def NewRiskManager_def t_feb01_early_def t_feb01_evening_def
      buy_request_def)

theorem decision_task_orders_witness:
  "map_option (snd \<circ> snd) (processTradingSignals exact venue ai_engine () t_feb01_evening)
     = Some ai_tick_events \<and>
   validated_from None ai_tick_events \<and>
   fst (ValidateOrder exact t_feb01_evening (riskManager ai_engine)
          \<lparr>oi_Symbol = ''ETHUSDT'', oi_Side = ''BUY'', oi_Quantity = 0, oi_Price = 0\<rparr>) \<and>
   map_option (snd \<circ> snd \<circ> snd) (processSymbolSignals exact venue ai_engine () t_feb01_evening ''BTCUSDT'')
     = Some [PlaceOrderCall (sell_request ''BTCUSDT'' long_btc)]"
proof -
  let ?data = "\<lparr>md_Symbol = ''BTCUSDT'', md_Price = 90, md_Volume = 1\<rparr>"
  let ?order = "\<lparr>oi_Symbol = ''ETHUSDT'', oi_Side = ''BUY'', oi_Quantity = 0, oi_Price = 0\<rparr>"
  from ai_engine_tick obtain e' w' where
    t: "processTradingSignals exact venue ai_engine () t_feb01_evening = Some (e', w', ai_tick_events)"
    by (auto simp: map_option_case split: option.splits)
  from ai_engine_eth obtain err e1 w1 where
    u: "processSymbolSignals exact venue ai_engine () t_feb01_evening ''ETHUSDT''
          = Some (err, e1, w1, [ValidateOrderCall ?order True, PlaceOrderCall (buy_request ''ETHUSDT'' 0)])"
    by (auto simp: map_option_case split: option.splits)
  have v: "getMarketData ai_engine ''BTCUSDT'' = Inr ?data"
          "GetPosition venue () ''BTCUSDT'' ''LONG'' = Inr long_btc"
          "pos_Status long_btc = ''OPEN''"
          "ShouldSell exact (strategy ai_engine) ''BTCUSDT'' ?data long_btc
             = Some ((Signal_zero exact)\<lparr>Action := ''SELL''\<rparr>, AI NewAIStrategy)"
          "Action ((Signal_zero exact)\<lparr>Action := ''SELL''\<rparr>) = ''SELL''"
    by (simp_all add: getMarketData_def ai_engine_def kline_at_def venue_def long_btc_def
        NewEngine_def Let_def ai_trading_config_def strategy_for_type_def AI_Initialize_def
        AI_ShouldSell_def)
  from decision_task_orders [of exact venue ai_engine "()" t_feb01_evening e' w' ai_tick_events]
       t
  have 1: "validated_from None ai_tick_events" by blast
  let ?evs = "[ValidateOrderCall ?order True, PlaceOrderCall (buy_request ''ETHUSDT'' 0)]"
  from decision_task_orders [of exact venue ai_engine "()" t_feb01_evening e' w' ai_tick_events
         "''ETHUSDT''" err e1 w1 ?evs ?data long_btc "Signal_zero exact" "AI NewAIStrategy"]
       u
  have q: "\<forall>order ok. ValidateOrderCall order ok \<in> set ?evs \<longrightarrow>
             ok = fst (ValidateOrder exact t_feb01_evening (riskManager ai_engine) order)"
    by blast
  have "ValidateOrderCall ?order True \<in> set ?evs" by simp
  with q have 2: "fst (ValidateOrder exact t_feb01_evening (riskManager ai_engine) ?order)" by blast
  from decision_task_orders [of exact venue ai_engine "()" t_feb01_evening e' w' ai_tick_events
         "''BTCUSDT''" None ai_engine "()" "[]" ?data long_btc
         "(Signal_zero exact)\<lparr>Action := ''SELL''\<rparr>" "AI NewAIStrategy"]
       v
  have 3: "map_option (snd \<circ> snd \<circ> snd)
             (processSymbolSignals exact venue ai_engine () t_feb01_evening ''BTCUSDT'')
           = Some [PlaceOrderCall (sell_request ''BTCUSDT'' long_btc)]"
    by auto
  from ai_engine_tick 1 2 3 show ?thesis by simp
qed

section \<open>RSI\<close>

lemma length_price_changes: "length (price_changes F ps) = length ps - 1"
  by (induction F ps rule: price_changes.induct) (simp_all add: Let_def)

lemma losses_sorted: "sorted ps \<Longrightarrow> x \<in> set (losses_of exact ps) \<Longrightarrow> x = 0"
  unfolding losses_of_def
  by (induction exact ps rule: price_changes.induct) (auto simp: Let_def)

lemma recent_average_sum:
  "0 \<le> n \<Longrightarrow> n \<le> int (length xs) \<Longrightarrow>
     recent_average exact xs n = sum_list (drop (nat (int (length xs) - n)) xs) / real_of_int n"
proof -
  assume n: "0 \<le> n" "n \<le> int (length xs)"
  let ?m = "nat (int (length xs) - n)"
  have "map (\<lambda>i. xs ! nat (int (length xs) - n + int i)) [0 ..< nat n]
          = map (\<lambda>i. xs ! (?m + i)) [0 ..< nat n]"
    using n by (intro map_cong) (auto simp: nat_add_distrib)
  also have "\<dots> = map ((!) xs) (map (\<lambda>i. ?m + i) [0 ..< nat n])"
    by simp
  also have "map (\<lambda>i. ?m + i) [0 ..< nat n] = [?m ..< ?m + nat n]"
    by (simp add: map_add_upt add.commute)
  also have "?m + nat n = length xs"
    using n by simp
  finally have "map (\<lambda>i. xs ! nat (int (length xs) - n + int i)) [0 ..< nat n] = drop ?m xs"
    using n by (simp add: map_nth_from)
  then show ?thesis
    by (simp add: recent_average_def foldl_add_sum)
qed

lemma sum_list_zeros: "\<forall>x \<in> set xs. x = 0 \<Longrightarrow> sum_list xs = 0"
  for xs :: "real list"
  by (induction xs) auto

lemma avgLoss_sorted:
  assumes "sorted prices" "0 \<le> period r" "period r + 1 \<le> int (length prices)"
  shows "avgLoss exact r prices = 0"
proof -
  have len: "period r \<le> int (length (losses_of exact prices))"
    using assms by (simp add: losses_of_def length_price_changes)
  have "\<forall>x \<in> set (drop (nat (int (length (losses_of exact prices)) - period r)) (losses_of exact prices)). x = 0"
    using losses_sorted [OF assms(1)] by (meson in_set_dropD)
  then have "sum_list (drop (nat (int (length (losses_of exact prices)) - period r)) (losses_of exact prices)) = 0"
    by (rule sum_list_zeros)
  with len assms(2) show ?thesis
    by (simp add: avgLoss_def recent_average_sum)
qed

text \<open>
  Claim C6. With at least \<open>period + 1\<close> prices and a computed average loss that compares
  equal to zero, \<open>calculateRSI\<close> returns 100. With fewer than \<open>period + 1\<close> prices it
  returns 50, and \<open>ShouldBuy\<close> and \<open>ShouldSell\<close> return \<open>HOLD\<close> when the history they
  retain after their update is that short. Nothing is assumed of the operations of
  \<open>float64\<close>; the test on the average loss is the \<open>==\<close> of the source.
\<close>

theorem RSI_edge_values:
  "(period r + 1 \<le> int (length prices) \<and> feq F (avgLoss F r prices) (lit F 0)
      \<longrightarrow> calculateRSI F r prices = lit F 100) \<and>
   (int (length prices) < period r + 1 \<longrightarrow> calculateRSI F r prices = lit F 50) \<and>
   (\<forall>signal r'. RSI_ShouldBuy F r0 symbol data = Some (signal, r') \<and>
        int (length (history_of (rsi_priceHistory r') symbol)) < period r' + 1
      \<longrightarrow> Action signal = ''HOLD'') \<and>
   (\<forall>signal r'. RSI_ShouldSell F r0 symbol data position = Some (signal, r') \<and>
        int (length (history_of (rsi_priceHistory r') symbol)) < period r' + 1
      \<longrightarrow> Action signal = ''HOLD'')"
proof -
  have 1: "period r + 1 \<le> int (length prices) \<Longrightarrow> feq F (avgLoss F r prices) (lit F 0)
             \<Longrightarrow> calculateRSI F r prices = lit F 100"
    by (auto simp: calculateRSI_def gains_of_def length_price_changes)
  have 2: "int (length prices) < period r + 1 \<Longrightarrow> calculateRSI F r prices = lit F 50"
    by (simp add: calculateRSI_def)
  have 3: "\<And>signal r'. RSI_ShouldBuy F r0 symbol data = Some (signal, r') \<Longrightarrow>
             int (length (history_of (rsi_priceHistory r') symbol)) < period r' + 1
             \<Longrightarrow> Action signal = ''HOLD''"
    by (auto simp: RSI_ShouldBuy_def Let_def hold_signal_def split: option.splits if_splits)
  have 4: "\<And>signal r'. RSI_ShouldSell F r0 symbol data position = Some (signal, r') \<Longrightarrow>
             int (length (history_of (rsi_priceHistory r') symbol)) < period r' + 1
             \<Longrightarrow> Action signal = ''HOLD''"
    by (auto simp: RSI_ShouldSell_def Let_def hold_signal_def split: option.splits if_splits)
  from 1 2 3 4 show ?thesis by blast
qed

text \<open>
  Fifteen rising prices have no loss among their fourteen changes: the RSI of the default
  strategy is 100. Two prices are too few: the RSI is 50. The first evaluation of a fresh
  strategy holds, for a buy and for a sell.
\<close>

theorem RSI_edge_values_witness:
  "period (NewRSIStrategy exact) + 1 \<le> int (length fifteen_rising) \<and>
   feq exact (avgLoss exact (NewRSIStrategy exact) fifteen_rising) (lit exact 0) \<and>
   calculateRSI exact (NewRSIStrategy exact) fifteen_rising = 100 \<and>
   calculateRSI exact (NewRSIStrategy exact) [100, 101] = 50 \<and>
   map_option (Action \<circ> fst)
       (RSI_ShouldBuy exact (NewRSIStrategy exact) ''BTCUSDT'' (tick_at exact ''BTCUSDT'' 100))
     = Some ''HOLD'' \<and>
   map_option (Action \<circ> fst)
       (RSI_ShouldSell exact (NewRSIStrategy exact) ''BTCUSDT'' (tick_at exact ''BTCUSDT'' 90) long_btc)
     = Some ''HOLD''"
proof -
  let ?r = "NewRSIStrategy exact"
  have p: "period ?r = 14" by (simp add: NewRSIStrategy_def)
  have l: "length fifteen_rising = 15" by (simp add: fifteen_rising_def)
  have s: "sorted fifteen_rising" by (simp add: fifteen_rising_def)
  have a: "avgLoss exact ?r fifteen_rising = 0"
    by (rule avgLoss_sorted [OF s]) (simp_all add: p l)
  obtain signal r' where b: "RSI_ShouldBuy exact ?r ''BTCUSDT'' (tick_at exact ''BTCUSDT'' 100) = Some (signal, r')"
    and b': "int (length (history_of (rsi_priceHistory r') ''BTCUSDT'')) < period r' + 1"
    by (simp add: RSI_ShouldBuy_def RSI_updatePriceHistory_def trim_history_def history_of_def
        NewRSIStrategy_def Let_def tick_at_def)
  obtain signal2 r2 where c: "RSI_ShouldSell exact ?r ''BTCUSDT'' (tick_at exact ''BTCUSDT'' 90) long_btc
        = Some (signal2, r2)"
    and c': "int (length (history_of (rsi_priceHistory r2) ''BTCUSDT'')) < period r2 + 1"
    by (simp add: RSI_ShouldSell_def RSI_updatePriceHistory_def trim_history_def history_of_def
        NewRSIStrategy_def Let_def tick_at_def)
  note t1 = RSI_edge_values [where F = exact and r = ?r and prices = fifteen_rising
      and ?r0.0 = ?r and symbol = "''BTCUSDT''" and data = "tick_at exact ''BTCUSDT'' 100"
      and position = long_btc]
  note t2 = RSI_edge_values [where F = exact and r = ?r and prices = "[100, 101]"
      and ?r0.0 = ?r and symbol = "''BTCUSDT''" and data = "tick_at exact ''BTCUSDT'' 90"
      and position = long_btc]
  from t1 a p l have 1: "calculateRSI exact ?r fifteen_rising = 100" by simp
  from t2 p have 2: "calculateRSI exact ?r [100, 101] = 50" by simp
  from t1 b b' have 3: "Action signal = ''HOLD''" by blast
  from t2 c c' have 4: "Action signal2 = ''HOLD''" by blast
  from 1 2 3 4 a p l b c show ?thesis by simp
qed

section \<open>Confidence of signals\<close>

lemma price_changes_nonneg: "(g, l) \<in> set (price_changes exact ps) \<Longrightarrow> 0 \<le> g \<and> 0 \<le> l"
  by (induction exact ps rule: price_changes.induct) (auto simp: Let_def split: if_splits)

lemma sum_list_nonneg_real: "\<forall>x \<in> set xs. 0 \<le> x \<Longrightarrow> 0 \<le> sum_list xs"
  for xs :: "real list"
  by (induction xs) auto

lemma recent_average_nonneg:
  assumes "\<forall>x \<in> set xs. 0 \<le> x" "n \<le> int (length xs)"
  shows "0 \<le> recent_average exact xs n"
proof (cases "0 \<le> n")
  case True
  have "\<forall>x \<in> set (drop (nat (int (length xs) - n)) xs). 0 \<le> x"
    using assms(1) by (meson in_set_dropD)
  then have "0 \<le> sum_list (drop (nat (int (length xs) - n)) xs)"
    by (rule sum_list_nonneg_real)
  with True assms(2) show ?thesis
    by (simp add: recent_average_sum)
next
  case False
  then show ?thesis by (simp add: recent_average_def)
qed

lemma calculateRSI_range: "0 \<le> calculateRSI exact r prices \<and> calculateRSI exact r prices \<le> 100"
proof (cases "int (length prices) < period r + 1 \<or> int (length (gains_of exact prices)) < period r
              \<or> avgLoss exact r prices = 0")
  case True
  then show ?thesis by (auto simp: calculateRSI_def)
next
  case False
  then have len: "period r \<le> int (length (gains_of exact prices))"
    and nz: "avgLoss exact r prices \<noteq> 0" by auto
  have len': "period r \<le> int (length (losses_of exact prices))"
    using len by (simp add: gains_of_def losses_of_def)
  have g: "0 \<le> avgGain exact r prices"
    unfolding avgGain_def using len
    by (intro recent_average_nonneg) (auto simp: gains_of_def dest: price_changes_nonneg)
  have l: "0 \<le> avgLoss exact r prices"
    unfolding avgLoss_def using len'
    by (intro recent_average_nonneg) (auto simp: losses_of_def dest: price_changes_nonneg)
  with nz have lpos: "0 < avgLoss exact r prices" by simp
  define rs where "rs = avgGain exact r prices / avgLoss exact r prices"
  have rs: "0 \<le> rs" using g lpos by (simp add: rs_def)
  have "0 < 100 / (1 + rs)" using rs by simp
  moreover have "100 / (1 + rs) \<le> 100" using rs by (simp add: field_simps)
  moreover have "calculateRSI exact r prices = 100 - 100 / (1 + rs)"
    using False by (simp add: calculateRSI_def rs_def Let_def)
  ultimately show ?thesis by simp
qed

lemma SMA_ShouldBuy_confidence:
  assumes "SMA_ShouldBuy exact s symbol data = Some (signal, s')"
      and "0 \<le> sma_minConfidence s"
  shows "0 \<le> Confidence signal \<and> Confidence signal \<le> 1 \<and>
         (Action signal \<noteq> ''HOLD'' \<longrightarrow> sma_minConfidence s \<le> Confidence signal)"
  using assms
  by (auto simp: SMA_ShouldBuy_def SMA_updatePriceHistory_def Let_def hold_signal_def
      Signal_zero_def split: option.splits if_splits)

lemma SMA_ShouldSell_confidence:
  assumes "SMA_ShouldSell exact s symbol data position = Some (signal, s')"
      and "0 \<le> sma_minConfidence s" "sma_minConfidence s \<le> 1"
  shows "0 \<le> Confidence signal \<and> Confidence signal \<le> 1 \<and>
         (Action signal \<noteq> ''HOLD'' \<longrightarrow> sma_minConfidence s \<le> Confidence signal)"
  using assms
  by (auto simp: SMA_ShouldSell_def SMA_updatePriceHistory_def Let_def hold_signal_def
      exit_signal_def Signal_zero_def pnlPercent_def split: option.splits if_splits)

lemma Grid_ShouldBuy_confidence:
  assumes "Grid_ShouldBuy exact g symbol data = Some (signal, g')"
      and "0 \<le> grid_minConfidence g" "grid_minConfidence g \<le> 1"
  shows "0 \<le> Confidence signal \<and> Confidence signal \<le> 1 \<and>
         (Action signal \<noteq> ''HOLD'' \<longrightarrow> grid_minConfidence g \<le> Confidence signal)"
  using assms
  by (auto simp: Grid_ShouldBuy_def initializeGrid_def Let_def hold_signal_def
      Signal_zero_def split: option.splits if_splits)

lemma Grid_ShouldSell_confidence:
  assumes "0 \<le> grid_minConfidence g" "grid_minConfidence g \<le> 1"
  shows "0 \<le> Confidence (Grid_ShouldSell exact g symbol data position) \<and>
         Confidence (Grid_ShouldSell exact g symbol data position) \<le> 1 \<and>
         (Action (Grid_ShouldSell exact g symbol data position) \<noteq> ''HOLD''
            \<longrightarrow> grid_minConfidence g \<le> Confidence (Grid_ShouldSell exact g symbol data position))"
  using assms
  by (auto simp: Grid_ShouldSell_def Let_def hold_signal_def exit_signal_def Signal_zero_def)

lemma RSI_ShouldBuy_confidence:
  assumes "RSI_ShouldBuy exact r symbol data = Some (signal, r')"
      and "0 \<le> rsi_minConfidence r"
  shows "0 \<le> Confidence signal \<and> Confidence signal \<le> 1 \<and>
         (Action signal \<noteq> ''HOLD'' \<longrightarrow> rsi_minConfidence r \<le> Confidence signal)"
proof -
  from assms(1) obtain r1 where u: "RSI_updatePriceHistory r symbol (md_Price data) = Some r1"
    by (auto simp: RSI_ShouldBuy_def split: option.splits)
  then have m: "rsi_minConfidence r1 = rsi_minConfidence r"
    by (auto simp: RSI_updatePriceHistory_def Let_def split: option.splits)
  define rsi where "rsi = calculateRSI exact r1 (history_of (rsi_priceHistory r1) symbol)"
  have range: "0 \<le> rsi" "rsi \<le> 100"
    using calculateRSI_range [of r1 "history_of (rsi_priceHistory r1) symbol"]
    by (simp_all add: rsi_def)
  have bound: "(oversold r1 - rsi) / oversold r1 \<le> 1" if "rsi < oversold r1"
  proof -
    from that range have "0 < oversold r1" by simp
    with range show ?thesis by (simp add: field_simps)
  qed
  from assms u m bound show ?thesis
    by (auto simp: RSI_ShouldBuy_def Let_def hold_signal_def Signal_zero_def rsi_def
        split: if_splits)
qed

lemma RSI_ShouldSell_confidence:
  assumes "RSI_ShouldSell exact r symbol data position = Some (signal, r')"
      and "0 \<le> rsi_minConfidence r" "rsi_minConfidence r \<le> 1"
  shows "0 \<le> Confidence signal \<and> Confidence signal \<le> 1 \<and>
         (Action signal \<noteq> ''HOLD'' \<longrightarrow> rsi_minConfidence r \<le> Confidence signal)"
proof -
  from assms(1) obtain r1 where u: "RSI_updatePriceHistory r symbol (md_Price data) = Some r1"
    by (auto simp: RSI_ShouldSell_def split: option.splits)
  then have m: "rsi_minConfidence r1 = rsi_minConfidence r"
    by (auto simp: RSI_updatePriceHistory_def Let_def split: option.splits)
  define rsi where "rsi = calculateRSI exact r1 (history_of (rsi_priceHistory r1) symbol)"
  have range: "0 \<le> rsi" "rsi \<le> 100"
    using calculateRSI_range [of r1 "history_of (rsi_priceHistory r1) symbol"]
    by (simp_all add: rsi_def)
  have bound: "(rsi - overbought r1) / (100 - overbought r1) \<le> 1" if "overbought r1 < rsi"
  proof -
    from that range have "0 < 100 - overbought r1" by simp
    with range show ?thesis by (simp add: field_simps)
  qed
  from assms u m bound show ?thesis
    by (auto simp: RSI_ShouldSell_def Let_def hold_signal_def exit_signal_def Signal_zero_def
        rsi_def split: if_splits)
qed

text \<open>
  Claim C4, amended. For a variant with a configured minimum confidence within \<open>[0,1]\<close>
  (SMA, RSI, Grid), every signal returned by \<open>ShouldBuy\<close> or \<open>ShouldSell\<close> has its
  confidence in \<open>[0,1]\<close>, and a signal other than \<open>HOLD\<close> has a confidence of at least
  that minimum. The only variant without a minimum confidence is the AI variant, which
  returns \<open>BUY\<close> and \<open>SELL\<close> unconditionally, with the zero confidence of an unset field.
  The bounds are those of the arithmetic of the source carried out exactly.
\<close>

theorem confidence_gate:
  "(minConfidence st = Some m \<and> 0 \<le> m \<and> m \<le> 1 \<longrightarrow>
      (\<forall>signal st'. ShouldBuy exact st symbol data = Some (signal, st') \<longrightarrow>
         0 \<le> Confidence signal \<and> Confidence signal \<le> 1 \<and>
         (Action signal \<noteq> ''HOLD'' \<longrightarrow> m \<le> Confidence signal)) \<and>
      (\<forall>signal st'. ShouldSell exact st symbol data position = Some (signal, st') \<longrightarrow>
         0 \<le> Confidence signal \<and> Confidence signal \<le> 1 \<and>
         (Action signal \<noteq> ''HOLD'' \<longrightarrow> m \<le> Confidence signal))) \<and>
   (minConfidence st = None \<longrightarrow>
      (\<exists>a. st = AI a) \<and>
      ShouldBuy exact st symbol data = Some ((Signal_zero exact)\<lparr>Action := ''BUY''\<rparr>, st) \<and>
      ShouldSell exact st symbol data position = Some ((Signal_zero exact)\<lparr>Action := ''SELL''\<rparr>, st))"
proof (cases st)
  case (SMA s)
  then show ?thesis
    using SMA_ShouldBuy_confidence [of s symbol data] SMA_ShouldSell_confidence [of s symbol data position]
    by auto
next
  case (RSI r)
  then show ?thesis
    using RSI_ShouldBuy_confidence [of r symbol data] RSI_ShouldSell_confidence [of r symbol data position]
    by auto
next
  case (Grid g)
  then show ?thesis
    using Grid_ShouldBuy_confidence [of g symbol data] Grid_ShouldSell_confidence [of g symbol data position]
    by auto
next
  case (AI a)
  then show ?thesis
    by (simp add: AI_ShouldBuy_def AI_ShouldSell_def)
qed

lemma grid_first_tick:
  "map_option fst (ShouldBuy exact (grid_with_confidence m) ''BTCUSDT'' (tick_at exact ''BTCUSDT'' 100))
     = Some ((Signal_zero exact)\<lparr>Action := ''BUY'', Quantity := 1, Price := 100, Confidence := m,
               Reason := ''Grid buy at level %d'', PositionSide := ''LONG''\<rparr>)"
  by (simp add: grid_with_confidence_def Grid_Initialize_def float_param_def NewGridStrategy_def
      Grid_ShouldBuy_def initializeGrid_def findGridLevel_def levels_of_def go_int_def tick_at_def
      Let_def signed_divide_int_def calculateGridQuantity_def option.map_comp comp_def)

text \<open>
  Claim C4, as stated, fails. The AI variant has no minimum confidence and returns \<open>BUY\<close>
  whatever it is given. \<open>Initialize\<close> accepts any number as \<open>min_confidence\<close>, and the
  grid variant reports that number as the confidence of its buy signal: configured with
  1.5 it returns \<open>BUY\<close> with confidence 1.5, configured with -0.5 a confidence of -0.5.
\<close>

theorem confidence_counterexample:
  "minConfidence (AI NewAIStrategy) = None \<and>
   map_option (Action \<circ> fst) (ShouldBuy exact (AI NewAIStrategy) ''BTCUSDT'' (tick_at exact ''BTCUSDT'' 100))
     = Some ''BUY'' \<and>
   minConfidence (grid_with_confidence (3 / 2)) = Some (3 / 2) \<and>
   map_option (Action \<circ> fst) (ShouldBuy exact (grid_with_confidence (3 / 2)) ''BTCUSDT'' (tick_at exact ''BTCUSDT'' 100))
     = Some ''BUY'' \<and>
   map_option (Confidence \<circ> fst) (ShouldBuy exact (grid_with_confidence (3 / 2)) ''BTCUSDT'' (tick_at exact ''BTCUSDT'' 100))
     = Some (3 / 2) \<and>
   map_option (Confidence \<circ> fst) (ShouldBuy exact (grid_with_confidence (- 1 / 2)) ''BTCUSDT'' (tick_at exact ''BTCUSDT'' 100))
     = Some (- 1 / 2)"
proof -
  have a: "map_option (Action \<circ> fst) (ShouldBuy exact (AI NewAIStrategy) ''BTCUSDT'' (tick_at exact ''BTCUSDT'' 100))
     = Some ''BUY''"
    by (simp add: AI_ShouldBuy_def)
  have b: "minConfidence (grid_with_confidence (3 / 2)) = Some (3 / 2)"
    by (simp add: grid_with_confidence_def Grid_Initialize_def float_param_def)
  have c: "map_option (f \<circ> fst) x = map_option f (map_option fst x)" for f :: "real Signal \<Rightarrow> 'b" and x :: "(real Signal \<times> real Strategy) option"
    by (simp add: option.map_comp)
  have d: "map_option (Action \<circ> fst) (ShouldBuy exact (grid_with_confidence (3 / 2)) ''BTCUSDT'' (tick_at exact ''BTCUSDT'' 100))
     = Some ''BUY''"
    by (simp only: c grid_first_tick) simp
  have e: "map_option (Confidence \<circ> fst) (ShouldBuy exact (grid_with_confidence m) ''BTCUSDT'' (tick_at exact ''BTCUSDT'' 100))
     = Some m" for m
    by (simp only: c grid_first_tick) simp
  from a b d e [of "3 / 2"] e [of "- 1 / 2"] show ?thesis
    by simp
qed

text \<open>
  The default moving-average strategy sells on the stop loss with confidence 1, above its
  minimum of 0.7; a grid strategy with minimum 0.8 buys at its base price with confidence
  0.8; the AI strategy buys.
\<close>

theorem confidence_gate_witness:
  "minConfidence (SMA warm_sma) = Some (7 / 10) \<and>
   (\<exists>signal st'. ShouldSell exact (SMA warm_sma) ''BTCUSDT'' (tick_at exact ''BTCUSDT'' 90) long_btc = Some (signal, st')
      \<and> Action signal = ''SELL'' \<and> 7 / 10 \<le> Confidence signal \<and> Confidence signal \<le> 1) \<and>
   (\<exists>signal st'. ShouldBuy exact (grid_with_confidence (8 / 10)) ''BTCUSDT'' (tick_at exact ''BTCUSDT'' 100) = Some (signal, st')
      \<and> Action signal = ''BUY'' \<and> 8 / 10 \<le> Confidence signal \<and> Confidence signal \<le> 1) \<and>
   minConfidence (AI NewAIStrategy) = None \<and>
   ShouldBuy exact (AI NewAIStrategy) ''BTCUSDT'' (tick_at exact ''BTCUSDT'' 100)
     = Some ((Signal_zero exact)\<lparr>Action := ''BUY''\<rparr>, AI NewAIStrategy)"
proof -
  have m: "minConfidence (SMA warm_sma) = Some (7 / 10)"
    by (simp add: warm_sma_def NewSMAStrategy_def)
  obtain st1 where s: "ShouldSell exact (SMA warm_sma) ''BTCUSDT'' (tick_at exact ''BTCUSDT'' 90) long_btc
      = Some (exit_signal exact (tick_at exact ''BTCUSDT'' 90) long_btc 1 ''Stop loss triggered: %.2f%%'', st1)"
    by (simp add: warm_sma_def tick_at_def stopped_ShouldSell)
  have g: "minConfidence (grid_with_confidence (8 / 10)) = Some (8 / 10)"
    by (simp add: grid_with_confidence_def Grid_Initialize_def float_param_def)
  from grid_first_tick [of "8 / 10"] obtain signal2 st2
    where b: "ShouldBuy exact (grid_with_confidence (8 / 10)) ''BTCUSDT'' (tick_at exact ''BTCUSDT'' 100) = Some (signal2, st2)"
      and b': "Action signal2 = ''BUY''"
    by (auto simp: Signal_zero_def)
  have n: "minConfidence (AI NewAIStrategy) = None" by simp
  from confidence_gate [of "SMA warm_sma" "7 / 10" "''BTCUSDT''" "tick_at exact ''BTCUSDT'' 90" long_btc] m s
  have 1: "7 / 10 \<le> Confidence (exit_signal exact (tick_at exact ''BTCUSDT'' 90) long_btc 1 ''Stop loss triggered: %.2f%%'')
           \<and> Confidence (exit_signal exact (tick_at exact ''BTCUSDT'' 90) long_btc 1 ''Stop loss triggered: %.2f%%'') \<le> 1"
    by (simp add: exit_signal_def Signal_zero_def)
  from confidence_gate [of "grid_with_confidence (8 / 10)" "8 / 10" "''BTCUSDT''" "tick_at exact ''BTCUSDT'' 100" long_btc] g b b'
  have 2: "8 / 10 \<le> Confidence signal2 \<and> Confidence signal2 \<le> 1"
    by simp
  from confidence_gate [of "AI NewAIStrategy" 0 "''BTCUSDT''" "tick_at exact ''BTCUSDT'' 100" long_btc] n
  have 3: "ShouldBuy exact (AI NewAIStrategy) ''BTCUSDT'' (tick_at exact ''BTCUSDT'' 100)
     = Some ((Signal_zero exact)\<lparr>Action := ''BUY''\<rparr>, AI NewAIStrategy)"
    by blast
  have A: "\<exists>signal st'. ShouldSell exact (SMA warm_sma) ''BTCUSDT'' (tick_at exact ''BTCUSDT'' 90) long_btc = Some (signal, st')
      \<and> Action signal = ''SELL'' \<and> 7 / 10 \<le> Confidence signal \<and> Confidence signal \<le> 1"
    using s 1
    by (intro exI [of _ "exit_signal exact (tick_at exact ''BTCUSDT'' 90) long_btc 1 ''Stop loss triggered: %.2f%%''"]
          exI [of _ st1])
       (simp add: exit_signal_def Signal_zero_def)
  have B: "\<exists>signal st'. ShouldBuy exact (grid_with_confidence (8 / 10)) ''BTCUSDT'' (tick_at exact ''BTCUSDT'' 100) = Some (signal, st')
      \<and> Action signal = ''BUY'' \<and> 8 / 10 \<le> Confidence signal \<and> Confidence signal \<le> 1"
    using b b' 2 by blast
  from m A B n 3 show ?thesis
    by (intro conjI)
qed

text \<open>
  The gate itself does not depend on exact arithmetic. Whatever the operations of
  \<open>float64\<close> are, a signal other than \<open>HOLD\<close> has a confidence that compares as at least
  the configured minimum \<open>m\<close>, provided \<open>m >= m\<close> (it is not NaN; the grid variant
  reports \<open>m\<close> as its confidence) and \<open>1.0 >= m\<close> (stop-loss and take-profit sales
  carry the confidence 1.0).
\<close>

lemma confidence_gate_float:
  assumes "minConfidence st = Some m" and "fge F m m" and "fge F (lit F 1) m"
  shows "(\<forall>signal st'. ShouldBuy F st symbol data = Some (signal, st') \<longrightarrow>
            Action signal \<noteq> ''HOLD'' \<longrightarrow> fge F (Confidence signal) m) \<and>
         (\<forall>signal st'. ShouldSell F st symbol data position = Some (signal, st') \<longrightarrow>
            Action signal \<noteq> ''HOLD'' \<longrightarrow> fge F (Confidence signal) m)"
proof (cases st)
  case (SMA s)
  with assms show ?thesis
    by (auto simp: SMA_ShouldBuy_def SMA_ShouldSell_def SMA_updatePriceHistory_def Let_def
        hold_signal_def exit_signal_def Signal_zero_def split: option.splits if_splits)
next
  case (RSI r)
  with assms show ?thesis
    by (auto simp: RSI_ShouldBuy_def RSI_ShouldSell_def RSI_updatePriceHistory_def Let_def
        hold_signal_def exit_signal_def Signal_zero_def split: option.splits if_splits)
next
  case (Grid g)
  with assms show ?thesis
    by (auto simp: Grid_ShouldBuy_def Grid_ShouldSell_def initializeGrid_def Let_def
        hold_signal_def exit_signal_def Signal_zero_def split: option.splits if_splits)
next
  case (AI a)
  with assms show ?thesis by simp
qed

section \<open>Moving-average crossover on a series of 25 prices\<close>



lemma history_of_upd [simp]: "history_of (m(symbol \<mapsto> h)) symbol = h"
  by (simp add: history_of_def)






subsection \<open>Exact arithmetic\<close>

lemma sum_list_below: "\<forall>x \<in> set a. x < c \<Longrightarrow> a \<noteq> [] \<Longrightarrow> sum_list a < real (length a) * c"
  for a :: "real list"
proof (induction a)
  case Nil
  then show ?case by simp
next
  case (Cons x a)
  then show ?case by (cases a) (auto simp: algebra_simps)
qed

lemma sum_list_above: "\<forall>y \<in> set b. c \<le> y \<Longrightarrow> real (length b) * c \<le> sum_list b"
  for b :: "real list"
  by (induction b) (auto simp: algebra_simps)

lemma strict_sorted_hd_least: "sorted_wrt (<) b \<Longrightarrow> y \<in> set b \<Longrightarrow> hd b \<le> y"
  for b :: "real list"
  by (cases b) auto

lemma strict_sorted_halves:
  fixes a b :: "real list"
  assumes "sorted_wrt (<) (a @ b)" "length a = length b" "b \<noteq> []"
  shows "sum_list a < sum_list b"
proof -
  from assms have a: "a \<noteq> []" by auto
  have "\<forall>x \<in> set a. x < hd b"
    using assms(1,3) by (auto simp: sorted_wrt_append)
  from sum_list_below [OF this a] have 1: "sum_list a < real (length a) * hd b" .
  have "\<forall>y \<in> set b. hd b \<le> y"
    using assms(1) by (auto simp: sorted_wrt_append intro: strict_sorted_hd_least)
  from sum_list_above [OF this] have 2: "real (length b) * hd b \<le> sum_list b" .
  from 1 2 assms(2) show ?thesis by simp
qed

text \<open>
  With the sums and quotients carried out exactly, the mean of the last 10 prices of a
  strictly ascending series exceeds the mean of its last 20. This is a fact of exact
  arithmetic only: with \<open>float64\<close>, sums that overflow or round make the two means
  compare otherwise.
\<close>

lemma ascending_crossover_exact:
  fixes xs :: "real list"
  assumes "sorted_wrt (<) xs" "20 \<le> length xs"
  shows "calculateSMA exact xs 20 < calculateSMA exact xs 10"
proof -
  define ys where "ys = drop (length xs - 20) xs"
  define a where "a = take 10 ys"
  define b where "b = drop 10 ys"
  have ys: "sorted_wrt (<) ys" "length ys = 20"
    using assms by (simp_all add: ys_def sorted_wrt_drop)
  have ab: "ys = a @ b" by (simp add: a_def b_def)
  have "sorted_wrt (<) (a @ b)" using ys(1) ab by simp
  moreover have "length a = length b" "b \<noteq> []" using ys(2) by (auto simp: a_def b_def)
  ultimately have lt: "sum_list a < sum_list b" by (rule strict_sorted_halves)
  have b: "b = drop (length xs - 10) xs"
    using assms(2) by (simp add: b_def ys_def)
  have short: "calculateSMA exact xs 10 = sum_list b / 10"
    using assms(2) by (simp add: calculateSMA_sum b nat_diff_distrib')
  have long0: "calculateSMA exact xs 20 = sum_list ys / 20"
    using assms(2) by (simp add: calculateSMA_sum ys_def nat_diff_distrib')
  have long: "calculateSMA exact xs 20 = (sum_list a + sum_list b) / 20"
    by (simp add: long0 ab)
  from lt short long show ?thesis by simp
qed

subsection \<open>The scenario\<close>




section \<open>The shared base price of the grid\<close>

lemma Grid_ShouldBuy_initialized:
  assumes "\<not> feq F (basePrice g) (lit F 0)"
  shows "\<exists>signal. Grid_ShouldBuy F g symbol data = Some (signal, g) \<and>
           (positions g symbol = None \<longrightarrow> signal = hold_signal F ''Price outside grid range'')"
  using assms by (auto simp: Grid_ShouldBuy_def Let_def levels_of_def)

lemma Grid_feed_initialized:
  assumes "\<not> feq F (basePrice g) (lit F 0)"
  shows "\<exists>signals. Grid_feed F g calls = Some (signals, g) \<and> length signals = length calls \<and>
           (\<forall>k < length calls. positions g (fst (calls ! k)) = None
              \<longrightarrow> signals ! k = hold_signal F ''Price outside grid range'')"
proof (induction calls)
  case Nil
  then show ?case by simp
next
  case (Cons call calls)
  obtain symbol p where call: "call = (symbol, p)" by (cases call)
  from Grid_ShouldBuy_initialized [OF assms, of symbol "tick_at F symbol p"] obtain signal
    where 1: "Grid_ShouldBuy F g symbol (tick_at F symbol p) = Some (signal, g)"
      and 2: "positions g symbol = None \<longrightarrow> signal = hold_signal F ''Price outside grid range''"
    by auto
  from Cons.IH obtain signals
    where 3: "Grid_feed F g calls = Some (signals, g)" and 4: "length signals = length calls"
      and 5: "\<forall>k < length calls. positions g (fst (calls ! k)) = None
              \<longrightarrow> signals ! k = hold_signal F ''Price outside grid range''"
    by auto
  have "Grid_feed F g (call # calls) = Some (signal # signals, g)"
    by (simp add: call 1 3)
  moreover have "\<forall>k < length (call # calls). positions g (fst ((call # calls) ! k)) = None
              \<longrightarrow> (signal # signals) ! k = hold_signal F ''Price outside grid range''"
    using 2 5 by (auto simp: call nth_Cons split: nat.splits)
  ultimately show ?case using 4 by simp
qed

text \<open>
  An evaluation that finds the base price unset takes the price as the base price and
  lays out the level array of its symbol around it, whatever the price is.
\<close>

lemma Grid_ShouldBuy_unset:
  assumes "feq F (basePrice g) (lit F 0)" "0 \<le> numGrids g"
  shows "\<exists>signal. Grid_ShouldBuy F g symbol (tick_at F symbol p)
           = Some (signal, g\<lparr>basePrice := p, positions := (positions g)(symbol \<mapsto> grid_levels F g p)\<rparr>) \<and>
           (feq F p (lit F 0) \<longrightarrow> signal = hold_signal F ''Price outside grid range'')"
  using assms
  by (auto simp: Grid_ShouldBuy_def initializeGrid_def findGridLevel_def grid_levels_def Let_def
      tick_at_def)

lemma Grid_feed_append:
  "Grid_feed F g (a @ b) =
     (case Grid_feed F g a of
        None \<Rightarrow> None
      | Some (sa, g1) \<Rightarrow>
          (case Grid_feed F g1 b of None \<Rightarrow> None | Some (sb, g2) \<Rightarrow> Some (sa @ sb, g2)))"
  by (induction a arbitrary: g) (auto split: option.splits)

lemma Grid_feed_zeros:
  assumes "feq F (basePrice g) (lit F 0)" "0 \<le> numGrids g" "\<forall>c \<in> set zs. feq F (snd c) (lit F 0)"
  shows "\<exists>g1. Grid_feed F g zs
             = Some (replicate (length zs) (hold_signal F ''Price outside grid range''), g1) \<and>
           feq F (basePrice g1) (lit F 0) \<and> numGrids g1 = numGrids g \<and> gridSize g1 = gridSize g \<and>
           dom (positions g1) = dom (positions g) \<union> fst ` set zs"
  using assms
proof (induction zs arbitrary: g)
  case Nil
  then show ?case by simp
next
  case (Cons z zs)
  obtain symbol p where z: "z = (symbol, p)" by (cases z)
  let ?g1 = "g\<lparr>basePrice := p, positions := (positions g)(symbol \<mapsto> grid_levels F g p)\<rparr>"
  from Cons.prems(3) have p: "feq F p (lit F 0)" by (simp add: z)
  from Grid_ShouldBuy_unset [OF Cons.prems(1,2), of symbol p] p
  have 1: "Grid_ShouldBuy F g symbol (tick_at F symbol p)
             = Some (hold_signal F ''Price outside grid range'', ?g1)"
    by auto
  have "feq F (basePrice ?g1) (lit F 0)" "0 \<le> numGrids ?g1" "\<forall>c \<in> set zs. feq F (snd c) (lit F 0)"
    using p Cons.prems by simp_all
  from Cons.IH [OF this] obtain g2
    where 2: "Grid_feed F ?g1 zs
                = Some (replicate (length zs) (hold_signal F ''Price outside grid range''), g2)"
      and 3: "feq F (basePrice g2) (lit F 0)" "numGrids g2 = numGrids ?g1" "gridSize g2 = gridSize ?g1"
      and 4: "dom (positions g2) = dom (positions ?g1) \<union> fst ` set zs"
    by blast
  have "Grid_feed F g (z # zs)
          = Some (replicate (length (z # zs)) (hold_signal F ''Price outside grid range''), g2)"
    by (simp add: z 1 2)
  moreover have "dom (positions g2) = dom (positions g) \<union> fst ` set (z # zs)"
    using 4 by (auto simp: z)
  moreover have "numGrids g2 = numGrids g" "gridSize g2 = gridSize g"
    using 3 by simp_all
  ultimately show ?case using 3(1) by blast
qed

text \<open>
  Claim C10, as stated, fails. The base price doubles as the flag for a grid that is not
  laid out yet: a first price of 0 (the value the venue client yields for a close it
  cannot parse) lays out levels for its symbol and leaves the base price at 0. The next
  evaluation, for another symbol at 100, lays out a second grid and returns \<open>BUY\<close>.
\<close>

theorem grid_counterexample:
  "map_option (map Action \<circ> fst) (Grid_feed exact (NewGridStrategy exact) zero_first_calls)
     = Some [''HOLD'', ''BUY''] \<and>
   map_option (dom \<circ> positions \<circ> snd) (Grid_feed exact (NewGridStrategy exact) zero_first_calls)
     = Some {''ETHUSDT'', ''BTCUSDT''}"
proof -
  have 1: "map_option (map Action \<circ> fst) (Grid_feed exact (NewGridStrategy exact) zero_first_calls)
     = Some [''HOLD'', ''BUY'']"
    by (simp add: zero_first_calls_def NewGridStrategy_def Grid_ShouldBuy_def initializeGrid_def
        findGridLevel_def levels_of_def go_int_def tick_at_def Let_def signed_divide_int_def
        hold_signal_def Signal_zero_def)
  have 2: "map_option (dom \<circ> positions \<circ> snd) (Grid_feed exact (NewGridStrategy exact) zero_first_calls)
     = Some {''ETHUSDT'', ''BTCUSDT''}"
    by (simp add: zero_first_calls_def NewGridStrategy_def Grid_ShouldBuy_def initializeGrid_def
        findGridLevel_def levels_of_def go_int_def tick_at_def Let_def signed_divide_int_def
        hold_signal_def Signal_zero_def)
  from 1 2 show ?thesis by (intro conjI)
qed

text \<open>
  Claim C10, amended. The grid strategy keeps one base price for all symbols, and a base
  price that compares equal to 0 means that it is not set. Take a strategy whose base
  price is not set and whose number of levels is not negative, and a history of
  \<open>ShouldBuy\<close> evaluations that starts with any number of evaluations at a price equal
  to 0, goes on with an evaluation of a symbol \<open>sym0\<close> at a price \<open>p0\<close> not equal to 0, and
  continues in any way. Every evaluation returns. Each evaluation at price 0 lays out a
  level array for its symbol and returns \<open>HOLD\<close> with the reason that the price is outside
  the grid range. The evaluation of \<open>sym0\<close> sets the base price to \<open>p0\<close> for good and lays
  out the levels of \<open>sym0\<close> around \<open>p0\<close>. No level array is laid out after it: the symbols
  with a level array are those that had one before, those evaluated at price 0, and
  \<open>sym0\<close>. Every later evaluation of any other symbol returns \<open>HOLD\<close> with the reason
  that the price is outside the grid range. Nothing is assumed of the operations of
  \<open>float64\<close>; equality with 0 is the \<open>==\<close> of the source.
\<close>

theorem grid_single_base:
  assumes "feq F (basePrice g) (lit F 0)" and "0 \<le> numGrids g"
      and "\<forall>c \<in> set zs. feq F (snd c) (lit F 0)"
      and "\<not> feq F p0 (lit F 0)"
  shows "\<exists>signals g'.
           Grid_feed F g (zs @ (sym0, p0) # rest) = Some (signals, g') \<and>
           length signals = length zs + 1 + length rest \<and>
           basePrice g' = p0 \<and>
           dom (positions g') = dom (positions g) \<union> fst ` set zs \<union> {sym0} \<and>
           positions g' sym0 = Some (grid_levels F g p0) \<and>
           (\<forall>k < length zs. signals ! k = hold_signal F ''Price outside grid range'') \<and>
           (\<forall>k < length rest. fst (rest ! k) \<notin> dom (positions g) \<union> fst ` set zs \<union> {sym0}
              \<longrightarrow> signals ! (length zs + 1 + k) = hold_signal F ''Price outside grid range'')"
proof -
  let ?hold = "hold_signal F ''Price outside grid range''"
  from Grid_feed_zeros [OF assms(1,2,3)] obtain g1
    where 1: "Grid_feed F g zs = Some (replicate (length zs) ?hold, g1)"
      and 2: "feq F (basePrice g1) (lit F 0)" "numGrids g1 = numGrids g" "gridSize g1 = gridSize g"
      and 3: "dom (positions g1) = dom (positions g) \<union> fst ` set zs"
    by auto
  let ?g2 = "g1\<lparr>basePrice := p0, positions := (positions g1)(sym0 \<mapsto> grid_levels F g1 p0)\<rparr>"
  from 2 assms(2) have n1: "0 \<le> numGrids g1" by simp
  from Grid_ShouldBuy_unset [OF 2(1) n1, of sym0 p0] obtain signal
    where 4: "Grid_ShouldBuy F g1 sym0 (tick_at F sym0 p0) = Some (signal, ?g2)"
    by auto
  have lv: "grid_levels F g1 p0 = grid_levels F g p0"
    by (simp add: grid_levels_def 2)
  have "\<not> feq F (basePrice ?g2) (lit F 0)" using assms(4) by simp
  from Grid_feed_initialized [OF this, of rest] obtain sigs
    where 5: "Grid_feed F ?g2 rest = Some (sigs, ?g2)" and 6: "length sigs = length rest"
      and 7: "\<forall>k < length rest. positions ?g2 (fst (rest ! k)) = None \<longrightarrow> sigs ! k = ?hold"
    by auto
  let ?signals = "replicate (length zs) ?hold @ signal # sigs"
  have d: "dom (positions ?g2) = dom (positions g) \<union> fst ` set zs \<union> {sym0}"
    using 3 by auto
  have a: "Grid_feed F g (zs @ (sym0, p0) # rest) = Some (?signals, ?g2)"
    by (simp add: Grid_feed_append 1 4 5)
  have b: "length ?signals = length zs + 1 + length rest"
    by (simp add: 6)
  have c: "\<forall>k < length zs. ?signals ! k = ?hold"
    by (simp add: nth_append)
  have e: "\<forall>k < length rest. fst (rest ! k) \<notin> dom (positions g) \<union> fst ` set zs \<union> {sym0}
              \<longrightarrow> ?signals ! (length zs + 1 + k) = ?hold"
  proof (intro allI impI)
    fix k
    assume k: "k < length rest"
       and m: "fst (rest ! k) \<notin> dom (positions g) \<union> fst ` set zs \<union> {sym0}"
    from m d have "positions ?g2 (fst (rest ! k)) = None"
      by (metis domIff)
    with 7 k have "sigs ! k = ?hold" by blast
    then show "?signals ! (length zs + 1 + k) = ?hold"
      by (simp add: nth_append)
  qed
  have f: "basePrice ?g2 = p0" "positions ?g2 sym0 = Some (grid_levels F g p0)"
    by (simp_all add: lv)
  from a b c d e f show ?thesis by blast
qed

text \<open>
  A fresh grid strategy in exact arithmetic sees \<open>BTCUSDT\<close> at 0 and then \<open>ETHUSDT\<close> at
  100: the base price is 100, both symbols have levels, and the two later evaluations
  of \<open>SOLUSDT\<close> return \<open>HOLD\<close>.
\<close>

theorem grid_single_base_witness:
  "feq exact (basePrice (NewGridStrategy exact)) (lit exact 0) \<and>
   0 \<le> numGrids (NewGridStrategy exact) \<and>
   feq exact (snd (''BTCUSDT'', 0)) (lit exact 0) \<and>
   \<not> feq exact 100 (lit exact 0) \<and>
   (\<exists>signals g'. Grid_feed exact (NewGridStrategy exact) (zero_first_calls @ later_calls)
        = Some (signals, g') \<and>
      basePrice g' = 100 \<and> dom (positions g') = {''BTCUSDT'', ''ETHUSDT''} \<and>
      Action (signals ! 0) = ''HOLD'' \<and>
      Action (signals ! 2) = ''HOLD'' \<and> Action (signals ! 3) = ''HOLD'')"
proof -
  let ?g = "NewGridStrategy exact"
  let ?zs = "[(''BTCUSDT'', 0 :: real)]"
  have h: "feq exact (basePrice ?g) (lit exact 0)" "0 \<le> numGrids ?g"
          "\<forall>c \<in> set ?zs. feq exact (snd c) (lit exact 0)" "\<not> feq exact 100 (lit exact 0)"
    by (simp_all add: NewGridStrategy_def)
  from grid_single_base [OF h, where ?sym0.0 = "''ETHUSDT''" and rest = later_calls] obtain signals g'
    where 1: "Grid_feed exact ?g (?zs @ (''ETHUSDT'', 100) # later_calls) = Some (signals, g')"
      and 2: "basePrice g' = 100"
      and 3: "dom (positions g') = dom (positions ?g) \<union> fst ` set ?zs \<union> {''ETHUSDT''}"
      and 4: "\<forall>k < length ?zs. signals ! k = hold_signal exact ''Price outside grid range''"
      and 5: "\<forall>k < length later_calls.
                fst (later_calls ! k) \<notin> dom (positions ?g) \<union> fst ` set ?zs \<union> {''ETHUSDT''}
                \<longrightarrow> signals ! (length ?zs + 1 + k) = hold_signal exact ''Price outside grid range''"
    by auto
  have 6: "Grid_feed exact ?g (zero_first_calls @ later_calls) = Some (signals, g')"
    using 1 by (simp add: zero_first_calls_def)
  have 7: "dom (positions g') = {''BTCUSDT'', ''ETHUSDT''}"
    using 3 by (simp add: NewGridStrategy_def insert_commute)
  from 4 have 8: "Action (signals ! 0) = ''HOLD''" by (simp add: hold_signal_def)
  from spec [OF 5, of 0] have 9: "Action (signals ! 2) = ''HOLD''"
    by (simp add: later_calls_def NewGridStrategy_def hold_signal_def numeral_2_eq_2 numeral_3_eq_3)
  from spec [OF 5, of 1] have 10: "Action (signals ! 3) = ''HOLD''"
    by (simp add: later_calls_def NewGridStrategy_def hold_signal_def numeral_2_eq_2 numeral_3_eq_3)
  have "\<exists>signals g'. Grid_feed exact ?g (zero_first_calls @ later_calls) = Some (signals, g') \<and>
      basePrice g' = 100 \<and> dom (positions g') = {''BTCUSDT'', ''ETHUSDT''} \<and>
      Action (signals ! 0) = ''HOLD'' \<and>
      Action (signals ! 2) = ''HOLD'' \<and> Action (signals ! 3) = ''HOLD''"
    by (rule exI [of _ signals], rule exI [of _ g']) (simp only: 6 2 7 8 9 10)
  with h show ?thesis by simp
qed

end
